theory Spec2Isabelle
  imports Complex_Main
begin

section \<open>The training orchestrator of examples/celeba/train.py\<close>

text \<open>
  The function \<open>run(config)\<close> of \<open>examples/celeba/train.py\<close> resolves the configuration,
  builds the networks, prepares the state dictionary, the logs and the data loader, and
  then drives the training loop. The theory embeds \<open>run\<close> as it is written: the
  configuration dictionary is a record of the keys \<open>run\<close> reads, the state dictionary a
  record of its keys, every exception is a value of \<open>py_error\<close>, and every call that
  leaves \<open>run\<close> (to \<open>utils\<close>, \<open>train_fns\<close>, \<open>xm\<close>, the progress bar, the logs) is
  recorded as an event of a trace, in the order of the source. Console output
  (\<open>xm.master_print\<close>) and the process-wide settings of lines 42-44 and 71 change
  nothing a later line reads and are left out of the trace.

  The modules \<open>utils\<close>, \<open>train_fns\<close> and \<open>xm\<close> are not part of the sources. Their
  tables and functions are the fields of the record \<open>env\<close>, a parameter of every
  definition. The dictionary \<open>config\<close> is an object that \<open>run\<close> shares with these
  collaborators (it is also the entry \<open>'config'\<close> of \<open>state_dict\<close>), so it is part of the
  state that the calls thread, and every line of \<open>run\<close> reads it as it is at that moment.
\<close>

subsection \<open>Exceptions and Python arithmetic\<close>

text \<open>
  \<open>KeyError\<close> is what a subscript of a dictionary raises at a missing key,
  \<open>AssertionError\<close> what a failed \<open>assert\<close> raises, \<open>ZeroDivisionError\<close> what \<open>%\<close> raises
  at a zero divisor, \<open>TypeError\<close> what a call raises that is given the same keyword twice
  (\<open>f(itr=..., **d)\<close> with \<open>'itr'\<close> a key of \<open>d\<close>), \<open>AttributeError\<close> what a method call on
  \<open>None\<close> raises. \<open>Raised\<close> stands for an exception of a collaborator.
  \<open>ConfigError\<close> is the name the specification uses; no line of \<open>run\<close> raises it.
\<close>

datatype py_error =
    KeyError string
  | AssertionError
  | ZeroDivisionError
  | TypeError
  | AttributeError
  | ConfigError
  | Raised string

text \<open>
  Python's \<open>a % b\<close> on integers takes the sign of the divisor, as \<open>mod\<close> on \<open>int\<close> does,
  and raises at \<open>b = 0\<close>, where HOL's \<open>mod\<close> returns \<open>a\<close>.
\<close>

definition py_mod :: "int \<Rightarrow> int \<Rightarrow> py_error + int" where
  "py_mod a b = (if b = 0 then Inl ZeroDivisionError else Inr (a mod b))"

subsection \<open>The configuration and the state dictionary\<close>

text \<open>
  The keys of \<open>config\<close> that \<open>run\<close> reads. The four entries that lines 51-54 add are
  absent (\<open>None\<close>) until then. \<open>'act\<close> is the type of the activation objects of
  \<open>utils.activation_dict\<close>.
\<close>

record 'act config =
  dataset :: string
  G_nl :: string
  D_nl :: string
  resume :: bool
  skip_init :: bool
  save_every :: int
  test_every :: int
  num_devices :: int
  seed :: int
  model :: string
  experiment_name :: string
  ema :: bool
  ema_decay :: real
  ema_start :: int
  G_fp16 :: bool
  D_fp16 :: bool
  weights_root :: string
  logs_root :: string
  load_weights :: string
  logstyle :: string
  batch_size :: int
  num_D_steps :: int
  num_D_accumulations :: int
  parallel :: bool
  no_inception :: bool
  no_fid :: bool
  G_batch_size :: int
  total_steps :: int
  sv_log_interval :: int
  G_eval_mode :: bool
  resolution :: "int option"
  n_classes :: "int option"
  G_activation :: "'act option"
  D_activation :: "'act option"

text \<open>The dictionary of lines 111-112; \<open>sd_config\<close> is its key \<open>'config'\<close>.\<close>

record 'act state_dict =
  itr :: int
  save_num :: int
  save_best_num :: int
  best_IS :: real
  best_FID :: real
  sd_config :: "'act config"

text \<open>
  The objects that \<open>run\<close> shares with its collaborators: the networks, the files and the
  random number generator (a state \<open>'w\<close> that only the collaborators read and write), the
  dictionary to which the variable \<open>config\<close> is bound from line 59 on (\<open>h_config\<close>), and the
  dictionary \<open>state_dict\<close> (\<open>h_sd\<close>). Line 112 stores the dictionary \<open>config\<close> itself under
  \<open>state_dict['config']\<close>, so a collaborator that is handed \<open>config\<close> or \<open>state_dict\<close> can
  assign to the keys of both. An assignment to a key of the dictionary \<open>config\<close> shows in
  \<open>h_config\<close>, which is what every later line of \<open>run\<close> reads; \<open>sd_config\<close> is what
  \<open>state_dict['config']\<close> holds, which \<open>run\<close> itself never reads again.
\<close>

record ('act, 'w) heap =
  h_world :: 'w
  h_config :: "'act config"
  h_sd :: "'act state_dict"

subsection \<open>The trace\<close>

datatype net = Generator | Discriminator | Generator_ema

text \<open>
  One event for each call that leaves \<open>run\<close>, with the arguments that \<open>run\<close> computes.
  \<open>TrainCall i\<close> is the call \<open>train(x, y)\<close> of line 194 with \<open>state_dict['itr'] = i\<close> at
  the moment of the call; \<open>TrainLog\<close> and \<open>SVLog\<close> are the two calls of
  \<open>train_log.log\<close> (lines 198 and 202); \<open>PrepareZY n\<close> is a call of the closure \<open>sample\<close>
  by \<open>run\<close> itself (line 167), \<open>SaveAndSample i n\<close> and \<open>TestCall i n\<close> are the calls
  of lines 215 and 226 at iteration \<open>i\<close>, handed the closure \<open>sample\<close> of batch size \<open>n\<close>.
\<close>

datatype event =
    SeedRng int
  | PrepareRoot
  | ImportModel string
  | Construct net
  | PrepareEma real int
  | CastHalf net
  | LoadWeights string string "string option" bool
  | OpenTestLog string bool
  | OpenTrainLog string bool string
  | WriteMetadata string string
  | GetDataLoaders int int
  | PrepareInceptionMetrics string bool bool bool
  | PrepareZY int
  | MakeTrainFn int
  | PbarCreate int
  | PerDeviceLoader nat
  | PbarUpdate int
  | SetTrain net
  | ToDevice bool
  | TrainCall int
  | TrainLog int "string \<rightharpoonup> real"
  | SVLog int "string \<rightharpoonup> real"
  | PbarDescription int
  | SetEval net
  | SaveAndSample int int
  | TestCall int int
  | PbarClose

subsection \<open>The collaborators\<close>

text \<open>
  What \<open>run\<close> takes from modules that are not part of the sources. The three tables are
  dictionaries. \<open>utils_update_config_roots\<close> returns the dictionary to which line 59
  binds \<open>config\<close>. The functions that receive \<open>state_dict\<close> or \<open>config\<close> (\<open>utils.load_weights\<close>,
  \<open>train\<close>, \<open>train_fns.save_and_sample\<close>, \<open>train_fns.test\<close>) map the shared objects as they
  find them to the shared objects as they leave them, or raise. \<open>model_init\<close> is what
  lines 65-109 leave of the networks. \<open>utils_get_data_loaders\<close> yields, for each pass of the
  outer loop, the batches of that pass. \<open>train_fns_GAN_training_function\<close>, given the batch
  size of the closure \<open>sample\<close>, is the function \<open>train\<close> of line 169; its metrics and the
  singular values of \<open>utils.get_SVs\<close> are dictionaries of numbers.
\<close>

record ('act, 'b, 'w) env =
  utils_imsize_dict :: "string \<rightharpoonup> int"
  utils_nclass_dict :: "string \<rightharpoonup> int"
  utils_activation_dict :: "string \<rightharpoonup> 'act"
  utils_update_config_roots :: "'act config \<Rightarrow> 'act config"
  utils_name_from_config :: "'act config \<Rightarrow> string"
  model_init :: "'act config \<Rightarrow> 'w"
  utils_load_weights ::
    "('act, 'w) heap \<Rightarrow> string \<Rightarrow> string \<Rightarrow> string option \<Rightarrow> bool
      \<Rightarrow> py_error + ('act, 'w) heap"
  xm_is_master_ordinal :: bool
  utils_get_data_loaders :: "'act config \<Rightarrow> int \<Rightarrow> nat \<Rightarrow> 'b list"
  utils_get_SVs :: "'w \<Rightarrow> net \<Rightarrow> string \<rightharpoonup> real"
  train_fns_GAN_training_function ::
    "int \<Rightarrow> ('act, 'w) heap \<Rightarrow> 'b \<Rightarrow> py_error + ((string \<rightharpoonup> real) \<times> ('act, 'w) heap)"
  train_fns_save_and_sample ::
    "int \<Rightarrow> string \<Rightarrow> ('act, 'w) heap \<Rightarrow> py_error + ('act, 'w) heap"
  train_fns_test ::
    "int \<Rightarrow> string \<Rightarrow> ('act, 'w) heap \<Rightarrow> py_error + ('act, 'w) heap"

text \<open>
  The local variables of \<open>run\<close> that the loop reads and never assigns:
  \<open>experiment_name\<close>, \<open>loader\<close>, \<open>G_batch_size\<close> (the batch size of \<open>sample\<close>), and whether
  \<open>G_ema\<close> is a network (\<open>True\<close>) or \<open>None\<close> (lines 82-88).
\<close>

record 'b locals =
  l_experiment_name :: string
  l_loader :: "nat \<Rightarrow> 'b list"
  l_G_batch_size :: int
  l_G_ema :: bool

subsection \<open>Lines 46-174: from the configuration to the loop\<close>

text \<open>Lines 51-54: four subscripts of the tables, in this order.\<close>

definition resolve ::
  "('act, 'b, 'w) env \<Rightarrow> 'act config \<Rightarrow> py_error + 'act config" where
  "resolve env c =
     (case utils_imsize_dict env (dataset c) of
        None \<Rightarrow> Inl (KeyError (dataset c))
      | Some r \<Rightarrow>
     (case utils_nclass_dict env (dataset c) of
        None \<Rightarrow> Inl (KeyError (dataset c))
      | Some n \<Rightarrow>
     (case utils_activation_dict env (G_nl c) of
        None \<Rightarrow> Inl (KeyError (G_nl c))
      | Some ga \<Rightarrow>
     (case utils_activation_dict env (D_nl c) of
        None \<Rightarrow> Inl (KeyError (D_nl c))
      | Some da \<Rightarrow>
          Inr (c\<lparr>resolution := Some r, n_classes := Some n,
                 G_activation := Some ga, D_activation := Some da\<rparr>)))))"

text \<open>Lines 56-59: \<open>config\<close> is bound to what \<open>utils.update_config_roots\<close> returns.\<close>

definition update_config ::
  "('act, 'b, 'w) env \<Rightarrow> 'act config \<Rightarrow> 'act config" where
  "update_config env c1 =
     utils_update_config_roots env (if resume c1 then c1\<lparr>skip_init := True\<rparr> else c1)"

text \<open>Lines 51-59 as a whole: the configuration that every later line reads.\<close>

definition configure ::
  "('act, 'b, 'w) env \<Rightarrow> 'act config \<Rightarrow> py_error + 'act config" where
  "configure env c =
     (case resolve env c of
        Inl e \<Rightarrow> Inl e
      | Inr c1 \<Rightarrow> Inr (update_config env c1))"

text \<open>Lines 61-62: the two assertions.\<close>

definition check_intervals :: "'act config \<Rightarrow> py_error + unit" where
  "check_intervals c =
     (case py_mod (save_every c) (num_devices c) of
        Inl e \<Rightarrow> Inl e
      | Inr r \<Rightarrow>
          if r \<noteq> 0 then Inl AssertionError
          else (case py_mod (test_every c) (num_devices c) of
                  Inl e \<Rightarrow> Inl e
                | Inr r' \<Rightarrow> if r' \<noteq> 0 then Inl AssertionError else Inr ()))"

text \<open>Lines 65-109: seeding, folders, the networks, the moving average, the casts.\<close>

definition build_events :: "'act config \<Rightarrow> event list" where
  "build_events c =
     [SeedRng (seed c), PrepareRoot, ImportModel (model c),
      Construct Generator, Construct Discriminator]
     @ (if ema c then [Construct Generator_ema, PrepareEma (ema_decay c) (ema_start c)]
        else [])
     @ (if G_fp16 c
        then CastHalf Generator # (if ema c then [CastHalf Generator_ema] else [])
        else [])
     @ (if D_fp16 c then [CastHalf Discriminator] else [])"

text \<open>Lines 111-112.\<close>

definition new_state_dict :: "'act config \<Rightarrow> 'act state_dict" where
  "new_state_dict c =
     \<lparr>itr = 0, save_num = 0, save_best_num = 0, best_IS = 0, best_FID = 999999,
      sd_config = c\<rparr>"

text \<open>Lines 75-76: an empty string is false.\<close>

definition experiment_name_of ::
  "('act, 'b, 'w) env \<Rightarrow> 'act config \<Rightarrow> string" where
  "experiment_name_of env c =
     (if experiment_name c \<noteq> [] then experiment_name c
      else utils_name_from_config env c)"

text \<open>
  The shared objects after line 112: the networks as built, \<open>config\<close>, and the new state
  dictionary.
\<close>

definition new_heap :: "('act, 'b, 'w) env \<Rightarrow> 'act config \<Rightarrow> ('act, 'w) heap" where
  "new_heap env c = \<lparr>h_world = model_init env c, h_config = c, h_sd = new_state_dict c\<rparr>"

text \<open>Lines 115-120: the weights and the state dictionary of a resumed run.\<close>

definition restore ::
  "('act, 'b, 'w) env \<Rightarrow> string \<Rightarrow> ('act, 'w) heap
    \<Rightarrow> event list \<times> (py_error + ('act, 'w) heap)" where
  "restore env ename h =
     (let c = h_config h in
      if resume c
      then (let suffix = (if load_weights c \<noteq> [] then Some (load_weights c) else None)
            in ([LoadWeights (weights_root c) ename suffix (ema c)],
                utils_load_weights env h (weights_root c) ename suffix (ema c)))
      else ([], Inr h))"

text \<open>Lines 125-138: the two logs and the metadata.\<close>

definition log_events ::
  "('act, 'b, 'w) env \<Rightarrow> 'act config \<Rightarrow> string \<Rightarrow> event list" where
  "log_events env c ename =
     [OpenTestLog (logs_root c @ ''/'' @ ename @ ''_log.jsonl'') (\<not> resume c),
      OpenTrainLog (logs_root c @ ''/'' @ ename) (\<not> resume c) (logstyle c)]
     @ (if xm_is_master_ordinal env then [WriteMetadata (logs_root c) ename] else [])"

text \<open>Lines 144-174: the loader, the metrics, \<open>sample\<close>, \<open>train\<close> and the progress bar.\<close>

definition D_batch_size :: "'act config \<Rightarrow> int" where
  "D_batch_size c = batch_size c * num_D_steps c * num_D_accumulations c"

definition data_events :: "'act config \<Rightarrow> int \<Rightarrow> event list" where
  "data_events c start_itr =
     [GetDataLoaders (batch_size (c\<lparr>batch_size := D_batch_size c\<rparr>)) start_itr,
      PrepareInceptionMetrics (dataset c) (parallel c) (no_inception c) (no_fid c),
      PrepareZY (max (G_batch_size c) (batch_size c)),
      MakeTrainFn (max (G_batch_size c) (batch_size c)),
      PbarCreate (total_steps c)]"

text \<open>
  The local variables: \<open>c0\<close> is \<open>config\<close> as lines 82-88 read it, \<open>c\<close> as lines 144-160
  read it.
\<close>

definition make_locals ::
  "('act, 'b, 'w) env \<Rightarrow> 'act config \<Rightarrow> 'act config \<Rightarrow> string \<Rightarrow> int \<Rightarrow> 'b locals" where
  "make_locals env c0 c ename start_itr =
     \<lparr>l_experiment_name = ename,
      l_loader = utils_get_data_loaders env (c\<lparr>batch_size := D_batch_size c\<rparr>) start_itr,
      l_G_batch_size = max (G_batch_size c) (batch_size c),
      l_G_ema = ema c0\<rparr>"

text \<open>
  Lines 46-174 as a whole: the trace, and either the exception that ends \<open>run\<close> or the
  local variables and the shared objects with which the loop starts.
\<close>

definition prepare ::
  "('act, 'b, 'w) env \<Rightarrow> 'act config
    \<Rightarrow> event list \<times> (py_error + ('b locals \<times> ('act, 'w) heap))" where
  "prepare env config0 =
     (case configure env config0 of
        Inl e \<Rightarrow> ([], Inl e)
      | Inr c \<Rightarrow>
          (case check_intervals c of
             Inl e \<Rightarrow> ([], Inl e)
           | Inr _ \<Rightarrow>
               (let ename = experiment_name_of env c in
                case restore env ename (new_heap env c) of
                  (tr, Inl e) \<Rightarrow> (build_events c @ tr, Inl e)
                | (tr, Inr h) \<Rightarrow>
                    (build_events c @ tr @ log_events env (h_config h) ename
                       @ data_events (h_config h) (itr (h_sd h)),
                     Inr (make_locals env c (h_config h) ename (itr (h_sd h)), h)))))"

subsection \<open>Lines 175-231: the training loop\<close>

text \<open>
  A result with its trace, followed by a computation on the result: the traces are
  concatenated, an exception ends the sequence.
\<close>

definition and_then ::
  "event list \<times> (py_error + 'a) \<Rightarrow> ('a \<Rightarrow> event list \<times> (py_error + 'c))
    \<Rightarrow> event list \<times> (py_error + 'c)" where
  "and_then r f =
     (case r of
        (tr, Inl e) \<Rightarrow> (tr, Inl e)
      | (tr, Inr a) \<Rightarrow> (case f a of (tr', r') \<Rightarrow> (tr @ tr', r')))"

text \<open>Line 182: \<open>state_dict['itr'] += config['num_devices']\<close>.\<close>

definition advance :: "('act, 'w) heap \<Rightarrow> ('act, 'w) heap" where
  "advance h = h\<lparr>h_sd := (h_sd h)\<lparr>itr := itr (h_sd h) + num_devices (h_config h)\<rparr>\<rparr>"

text \<open>
  Lines 179-194: the progress bar, the assignment of line 182, the training mode of the
  networks (\<open>G_ema.train()\<close> raises where \<open>G_ema\<close> is \<open>None\<close>), the batch on the device, and
  the call of \<open>train\<close>, which finds the shared objects as line 182 left them.
\<close>

definition train_call ::
  "('act, 'b, 'w) env \<Rightarrow> 'b locals \<Rightarrow> 'b \<Rightarrow> ('act, 'w) heap
    \<Rightarrow> event list \<times> (py_error + ((string \<rightharpoonup> real) \<times> ('act, 'w) heap))" where
  "train_call env l b h =
     (let c = h_config h;
          h1 = advance h;
          tr = (if xm_is_master_ordinal env then [PbarUpdate (num_devices c)] else [])
               @ [SetTrain Generator, SetTrain Discriminator]
      in if ema c \<and> \<not> l_G_ema l then (tr, Inl AttributeError)
         else (tr @ (if ema c then [SetTrain Generator_ema] else [])
                  @ [ToDevice (D_fp16 c), TrainCall (itr (h_sd h1))],
               train_fns_GAN_training_function env (l_G_batch_size l) h1 b))"

text \<open>
  Lines 196-206: the record of the training log, the singular values, the description
  of the progress bar. \<open>not (a % b)\<close> is \<open>a % b == 0\<close>; the \<open>and\<close> of line 201
  evaluates \<open>%\<close> only where \<open>sv_log_interval > 0\<close>. Both calls of \<open>train_log.log\<close> pass
  \<open>itr\<close> by keyword together with the entries of a dictionary, and raise where \<open>'itr'\<close> is
  one of its keys; \<open>{**a, **b}\<close> is \<open>a ++ b\<close>.
\<close>

definition iteration_log ::
  "('act, 'b, 'w) env \<Rightarrow> (string \<rightharpoonup> real) \<Rightarrow> ('act, 'w) heap
    \<Rightarrow> event list \<times> (py_error + unit)" where
  "iteration_log env metrics h =
     (let c = h_config h;
          i = itr (h_sd h);
          svs = utils_get_SVs env (h_world h) Generator
                ++ utils_get_SVs env (h_world h) Discriminator;
          tr = (if xm_is_master_ordinal env then [TrainLog i metrics] else []);
          tr' = (if xm_is_master_ordinal env then [PbarDescription i] else [])
      in if xm_is_master_ordinal env \<and> metrics ''itr'' \<noteq> None then ([], Inl TypeError)
         else if (sv_log_interval c > 0 \<and> i mod sv_log_interval c = 0)
                 \<and> xm_is_master_ordinal env
         then (if svs ''itr'' \<noteq> None then (tr, Inl TypeError)
               else (tr @ [SVLog i svs] @ tr', Inr ()))
         else (tr @ tr', Inr ()))"

text \<open>Lines 209-215; \<open>G_ema.eval()\<close> raises where \<open>G_ema\<close> is \<open>None\<close>.\<close>

definition save_phase ::
  "('act, 'b, 'w) env \<Rightarrow> 'b locals \<Rightarrow> ('act, 'w) heap
    \<Rightarrow> event list \<times> (py_error + ('act, 'w) heap)" where
  "save_phase env l h =
     (let c = h_config h in
      case py_mod (itr (h_sd h)) (save_every c) of
        Inl e \<Rightarrow> ([], Inl e)
      | Inr r \<Rightarrow>
          if r = 0
          then (if G_eval_mode c \<and> ema c \<and> \<not> l_G_ema l
                then ([SetEval Generator], Inl AttributeError)
                else ((if G_eval_mode c
                       then SetEval Generator # (if ema c then [SetEval Generator_ema] else [])
                       else [])
                      @ [SaveAndSample (itr (h_sd h)) (l_G_batch_size l)],
                      train_fns_save_and_sample env (l_G_batch_size l)
                        (l_experiment_name l) h))
          else ([], Inr h))"

text \<open>Lines 218-227; \<open>model_sample\<close> calls \<open>sample\<close>.\<close>

definition test_phase ::
  "('act, 'b, 'w) env \<Rightarrow> 'b locals \<Rightarrow> ('act, 'w) heap
    \<Rightarrow> event list \<times> (py_error + ('act, 'w) heap)" where
  "test_phase env l h =
     (let c = h_config h in
      case py_mod (itr (h_sd h)) (test_every c) of
        Inl e \<Rightarrow> ([], Inl e)
      | Inr r \<Rightarrow>
          if r = 0
          then ((if G_eval_mode c then [SetEval Generator] else [])
                @ [TestCall (itr (h_sd h)) (l_G_batch_size l)],
                train_fns_test env (l_G_batch_size l) (l_experiment_name l) h)
          else ([], Inr h))"

text \<open>Lines 196-227: what the body of the inner loop does once \<open>train\<close> has returned.\<close>

definition after_train ::
  "('act, 'b, 'w) env \<Rightarrow> 'b locals \<Rightarrow> (string \<rightharpoonup> real) \<Rightarrow> ('act, 'w) heap
    \<Rightarrow> event list \<times> (py_error + ('act, 'w) heap)" where
  "after_train env l metrics h =
     and_then (iteration_log env metrics h)
       (\<lambda>u. and_then (save_phase env l h) (test_phase env l))"

text \<open>Lines 179-227: one pass of the body of the inner loop, up to the test of line 229.\<close>

definition step ::
  "('act, 'b, 'w) env \<Rightarrow> 'b locals \<Rightarrow> 'b \<Rightarrow> ('act, 'w) heap
    \<Rightarrow> event list \<times> (py_error + ('act, 'w) heap)" where
  "step env l b h =
     and_then (train_call env l b h) (\<lambda>(metrics, h1). after_train env l metrics h1)"

text \<open>
  Lines 178-230: the inner loop over the batches of one pass, left at line 230 once
  \<open>state_dict['itr'] >= config['total_steps']\<close>.
\<close>

fun for_loop ::
  "('act, 'b, 'w) env \<Rightarrow> 'b locals \<Rightarrow> 'b list \<Rightarrow> ('act, 'w) heap
    \<Rightarrow> event list \<times> (py_error + ('act, 'w) heap)" where
  "for_loop env l [] h = ([], Inr h)"
| "for_loop env l (b # bs) h =
     (case step env l b h of
        (tr, Inl e) \<Rightarrow> (tr, Inl e)
      | (tr, Inr h') \<Rightarrow>
          if itr (h_sd h') \<ge> total_steps (h_config h') then (tr, Inr h')
          else (case for_loop env l bs h' of (tr', r) \<Rightarrow> (tr @ tr', r)))"

text \<open>
  Lines 175-231: the outer loop. Nothing bounds the number of its passes (a loader
  with no batch never advances the counter), so the function takes the number of passes
  it may still make: \<open>None\<close> is a run that is still in the loop after that many passes,
  with the trace up to there. \<open>pass\<close> counts the passes made.
\<close>

fun while_loop ::
  "nat \<Rightarrow> ('act, 'b, 'w) env \<Rightarrow> 'b locals \<Rightarrow> nat \<Rightarrow> ('act, 'w) heap
    \<Rightarrow> event list \<times> (py_error + ('act, 'w) heap) option" where
  "while_loop 0 env l pass h =
     (if itr (h_sd h) < total_steps (h_config h) then ([], None) else ([], Some (Inr h)))"
| "while_loop (Suc fuel) env l pass h =
     (if itr (h_sd h) < total_steps (h_config h)
      then (case for_loop env l (l_loader l pass) h of
              (tr, Inl e) \<Rightarrow> (PerDeviceLoader pass # tr, Some (Inl e))
            | (tr, Inr h') \<Rightarrow>
                (case while_loop fuel env l (Suc pass) h' of
                   (tr', r) \<Rightarrow> (PerDeviceLoader pass # tr @ PbarClose # tr', r)))
      else ([], Some (Inr h)))"

text \<open>
  \<open>run(config)\<close>: lines 46-174, then the loop. \<open>run\<close> returns nothing; the model returns
  the shared objects as the run leaves them, for the theorems to speak of.
\<close>

definition run ::
  "nat \<Rightarrow> ('act, 'b, 'w) env \<Rightarrow> 'act config
    \<Rightarrow> event list \<times> (py_error + ('act, 'w) heap) option" where
  "run fuel env config0 =
     (case prepare env config0 of
        (tr, Inl e) \<Rightarrow> (tr, Some (Inl e))
      | (tr, Inr (l, h)) \<Rightarrow>
          (case while_loop fuel env l 0 h of (tr', r) \<Rightarrow> (tr @ tr', r)))"

subsection \<open>Reading a trace\<close>

text \<open>The iteration counts under which \<open>train\<close> is called, in the order of the calls.\<close>

fun train_call_itr :: "event \<Rightarrow> int option" where
  "train_call_itr (TrainCall i) = Some i"
| "train_call_itr _ = None"

definition train_calls :: "event list \<Rightarrow> int list" where
  "train_calls tr = List.map_filter train_call_itr tr"




text \<open>The \<open>n\<close> values \<open>x + d\<close>, \<open>x + 2 d\<close>, ..., \<open>x + n d\<close>.\<close>

definition progression :: "int \<Rightarrow> int \<Rightarrow> nat \<Rightarrow> int list" where
  "progression x d n = map (\<lambda>k. x + (int k + 1) * d) [0..<n]"

text \<open>The writes to the training log.\<close>

fun is_train_log :: "event \<Rightarrow> bool" where
  "is_train_log (TrainLog i m) = True"
| "is_train_log (SVLog i m) = True"
| "is_train_log _ = False"

text \<open>
  The records of line 198: the iteration count and the metrics written, in the order of the
  trace.
\<close>

fun train_log_record :: "event \<Rightarrow> (int \<times> (string \<rightharpoonup> real)) option" where
  "train_log_record (TrainLog i m) = Some (i, m)"
| "train_log_record _ = None"

definition train_logs :: "event list \<Rightarrow> (int \<times> (string \<rightharpoonup> real)) list" where
  "train_logs tr = List.map_filter train_log_record tr"

text \<open>
  The records of singular values: the iteration count and the values written, in the order
  of the trace.
\<close>

fun sv_log_record :: "event \<Rightarrow> (int \<times> (string \<rightharpoonup> real)) option" where
  "sv_log_record (SVLog i m) = Some (i, m)"
| "sv_log_record _ = None"

definition sv_logs :: "event list \<Rightarrow> (int \<times> (string \<rightharpoonup> real)) list" where
  "sv_logs tr = List.map_filter sv_log_record tr"

text \<open>The batch sizes requested from \<open>utils.get_data_loaders\<close>.\<close>

fun loader_request :: "event \<Rightarrow> int option" where
  "loader_request (GetDataLoaders n i) = Some n"
| "loader_request _ = None"

definition loader_requests :: "event list \<Rightarrow> int list" where
  "loader_requests tr = List.map_filter loader_request tr"

text \<open>
  The batch sizes of the closure \<open>sample\<close>, wherever \<open>run\<close> calls it or hands it on.
\<close>

fun sample_size :: "event \<Rightarrow> int option" where
  "sample_size (PrepareZY n) = Some n"
| "sample_size (MakeTrainFn n) = Some n"
| "sample_size (SaveAndSample i n) = Some n"
| "sample_size (TestCall i n) = Some n"
| "sample_size _ = None"

definition sample_sizes :: "event list \<Rightarrow> int list" where
  "sample_sizes tr = List.map_filter sample_size tr"

subsection \<open>Assumptions on the collaborators\<close>

text \<open>
  \<open>train\<close>, \<open>save_and_sample\<close> and \<open>test\<close> hold the state dictionary and the configuration.
  \<open>keeps_itr\<close> says that none of them assigns to the key \<open>'itr'\<close> of the state dictionary,
  \<open>keeps_config\<close> that none of them assigns to a key of \<open>config\<close>, \<open>always_returns\<close> that
  none of them raises.
\<close>

definition keeps_itr :: "('act, 'b, 'w) env \<Rightarrow> 'b locals \<Rightarrow> bool" where
  "keeps_itr env l \<longleftrightarrow>
     (\<forall>h b m h'.
        train_fns_GAN_training_function env (l_G_batch_size l) h b = Inr (m, h')
        \<longrightarrow> itr (h_sd h') = itr (h_sd h))
     \<and> (\<forall>h h'.
          train_fns_save_and_sample env (l_G_batch_size l) (l_experiment_name l) h = Inr h'
          \<longrightarrow> itr (h_sd h') = itr (h_sd h))
     \<and> (\<forall>h h'.
          train_fns_test env (l_G_batch_size l) (l_experiment_name l) h = Inr h'
          \<longrightarrow> itr (h_sd h') = itr (h_sd h))"

definition keeps_config :: "('act, 'b, 'w) env \<Rightarrow> 'b locals \<Rightarrow> bool" where
  "keeps_config env l \<longleftrightarrow>
     (\<forall>h b m h'.
        train_fns_GAN_training_function env (l_G_batch_size l) h b = Inr (m, h')
        \<longrightarrow> h_config h' = h_config h)
     \<and> (\<forall>h h'.
          train_fns_save_and_sample env (l_G_batch_size l) (l_experiment_name l) h = Inr h'
          \<longrightarrow> h_config h' = h_config h)
     \<and> (\<forall>h h'.
          train_fns_test env (l_G_batch_size l) (l_experiment_name l) h = Inr h'
          \<longrightarrow> h_config h' = h_config h)"

definition always_returns :: "('act, 'b, 'w) env \<Rightarrow> 'b locals \<Rightarrow> bool" where
  "always_returns env l \<longleftrightarrow>
     (\<forall>h b. \<exists>m h'.
        train_fns_GAN_training_function env (l_G_batch_size l) h b = Inr (m, h')
        \<and> m ''itr'' = None)
     \<and> (\<forall>h. \<exists>h'.
          train_fns_save_and_sample env (l_G_batch_size l) (l_experiment_name l) h = Inr h')
     \<and> (\<forall>h. \<exists>h'.
          train_fns_test env (l_G_batch_size l) (l_experiment_name l) h = Inr h')
     \<and> (\<forall>w. (utils_get_SVs env w Generator ++ utils_get_SVs env w Discriminator) ''itr''
              = None)"

subsection \<open>A concrete run\<close>

text \<open>
  A configuration of four devices and ten steps, and collaborators that do nothing but
  count the saves and report, as the metric \<open>seen\<close>, the iteration count that \<open>train\<close>
  finds in the state dictionary: the input at which the theorems below are evaluated.
\<close>

definition demo_config :: "string config" where
  "demo_config =
     \<lparr>dataset = ''C10'', G_nl = ''relu'', D_nl = ''relu'', resume = False,
      skip_init = False, save_every = 8, test_every = 4, num_devices = 4, seed = 0,
      model = ''BigGAN'', experiment_name = ''demo'', ema = True, ema_decay = 1,
      ema_start = 0, G_fp16 = False, D_fp16 = False, weights_root = ''weights'',
      logs_root = ''logs'', load_weights = [], logstyle = ''%3.3e'', batch_size = 2,
      num_D_steps = 3, num_D_accumulations = 5, parallel = False, no_inception = True,
      no_fid = True, G_batch_size = 1, total_steps = 10, sv_log_interval = 8,
      G_eval_mode = True, resolution = None, n_classes = None, G_activation = None,
      D_activation = None\<rparr>"

definition demo_env :: "(string, nat, unit) env" where
  "demo_env =
     \<lparr>utils_imsize_dict = [''C10'' \<mapsto> 32],
      utils_nclass_dict = [''C10'' \<mapsto> 10],
      utils_activation_dict = [''relu'' \<mapsto> ''ReLU''],
      utils_update_config_roots = (\<lambda>c. c),
      utils_name_from_config = (\<lambda>c. ''unnamed''),
      model_init = (\<lambda>c. ()),
      utils_load_weights = (\<lambda>h root name suffix e. Inl (Raised ''FileNotFoundError'')),
      xm_is_master_ordinal = True,
      utils_get_data_loaders = (\<lambda>c start pass. [0, 1]),
      utils_get_SVs = (\<lambda>w n. Map.empty),
      train_fns_GAN_training_function =
        (\<lambda>n h b. Inr ([''seen'' \<mapsto> of_int (itr (h_sd h))], h)),
      train_fns_save_and_sample =
        (\<lambda>n name h. Inr (h\<lparr>h_sd := (h_sd h)\<lparr>save_num := save_num (h_sd h) + 1\<rparr>\<rparr>)),
      train_fns_test = (\<lambda>n name h. Inr h)\<rparr>"


section \<open>Properties of the training script\<close>

subsection \<open>Auxiliary facts: lists and the resolution of the configuration\<close>

lemma map_filter_append:
  "List.map_filter f (xs @ ys) = List.map_filter f xs @ List.map_filter f ys"
  by (simp add: List.map_filter_def)

lemma map_filter_empty_iff:
  "List.map_filter f xs = [] \<longleftrightarrow> (\<forall>x \<in> set xs. f x = None)"
  by (induction xs) (auto split: option.splits)

lemma set_map_filter:
  "set (List.map_filter f xs) = {y. \<exists>x \<in> set xs. f x = Some y}"
  by (induction xs) (auto simp: List.map_filter_def)

lemma resolve_fields:
  assumes "resolve env c = Inr c1"
  shows "save_every c1 = save_every c" "test_every c1 = test_every c"
    "num_devices c1 = num_devices c" "total_steps c1 = total_steps c"
    "batch_size c1 = batch_size c" "num_D_steps c1 = num_D_steps c"
    "num_D_accumulations c1 = num_D_accumulations c" "G_batch_size c1 = G_batch_size c"
    "resume c1 = resume c" "seed c1 = seed c" "sv_log_interval c1 = sv_log_interval c"
  using assms by (auto simp: resolve_def split: option.splits)

lemma resolve_missing:
  assumes "utils_imsize_dict env (dataset c) = None \<or> utils_nclass_dict env (dataset c) = None
           \<or> utils_activation_dict env (G_nl c) = None \<or> utils_activation_dict env (D_nl c) = None"
  shows "resolve env c =
           Inl (KeyError
             (if utils_imsize_dict env (dataset c) = None
                 \<or> utils_nclass_dict env (dataset c) = None then dataset c
              else if utils_activation_dict env (G_nl c) = None then G_nl c
              else D_nl c))"
  using assms by (auto simp: resolve_def split: option.splits)

lemma configure_Inl:
  "configure env c = Inl e \<longleftrightarrow> resolve env c = Inl e"
  by (simp add: configure_def split: sum.splits)

lemma configure_Inr:
  "configure env c = Inr c' \<longleftrightarrow> (\<exists>c1. resolve env c = Inr c1 \<and> c' = update_config env c1)"
  by (auto simp: configure_def split: sum.splits)

lemma run_configure_Inl:
  assumes "configure env c = Inl e"
  shows "run fuel env c = ([], Some (Inl e))"
  by (simp add: run_def prepare_def assms)

subsection \<open>Unrecognised identifiers (lines 51-54)\<close>

text \<open>
  Claim C5, as the code has it. The four table lookups of lines 51-54 are plain dictionary
  subscripts, made in the order image size, class count, generator activation, discriminator
  activation. When the dataset identifier is missing from \<^const>\<open>utils_imsize_dict\<close> or
  \<^const>\<open>utils_nclass_dict\<close>, or an activation identifier is missing from
  \<^const>\<open>utils_activation_dict\<close>, \<^const>\<open>run\<close> stops with a \<^const>\<open>KeyError\<close> that carries the
  identifier of the first lookup that fails, and nothing has happened yet (the trace is empty,
  so no seeding, no model construction and no training step). The error is Python's
  \<open>KeyError\<close>; the source defines and raises no \<open>ConfigError\<close>.
\<close>

theorem run_unrecognized_identifier:
  assumes "utils_imsize_dict env (dataset c) = None \<or> utils_nclass_dict env (dataset c) = None
           \<or> utils_activation_dict env (G_nl c) = None \<or> utils_activation_dict env (D_nl c) = None"
  shows "run fuel env c =
           ([], Some (Inl (KeyError
             (if utils_imsize_dict env (dataset c) = None
                 \<or> utils_nclass_dict env (dataset c) = None then dataset c
              else if utils_activation_dict env (G_nl c) = None then G_nl c
              else D_nl c))))"
  by (rule run_configure_Inl) (simp only: configure_Inl resolve_missing [OF assms])

text \<open>
  The dataset \<open>I128\<close> is not in the demonstration tables: the run stops with
  \<open>KeyError 'I128'\<close>. With the dataset known and the discriminator activation \<open>elu\<close> unknown, it
  stops with \<open>KeyError 'elu'\<close>.
\<close>

theorem run_unrecognized_identifier_witness:
  "utils_imsize_dict demo_env (dataset (demo_config\<lparr>dataset := ''I128''\<rparr>)) = None
   \<and> run 3 demo_env (demo_config\<lparr>dataset := ''I128''\<rparr>) = ([], Some (Inl (KeyError ''I128'')))
   \<and> utils_activation_dict demo_env (D_nl (demo_config\<lparr>D_nl := ''elu''\<rparr>)) = None
   \<and> run 3 demo_env (demo_config\<lparr>D_nl := ''elu''\<rparr>) = ([], Some (Inl (KeyError ''elu'')))"
proof -
  have h: "utils_imsize_dict demo_env (dataset (demo_config\<lparr>dataset := ''I128''\<rparr>)) = None"
    by (simp add: demo_env_def)
  have h': "utils_activation_dict demo_env (D_nl (demo_config\<lparr>D_nl := ''elu''\<rparr>)) = None"
    by (simp add: demo_env_def)
  have a: "run 3 demo_env (demo_config\<lparr>dataset := ''I128''\<rparr>)
           = ([], Some (Inl (KeyError ''I128'')))"
    using run_unrecognized_identifier [of demo_env "demo_config\<lparr>dataset := ''I128''\<rparr>" 3] h
    by (simp add: demo_env_def demo_config_def)
  have b: "run 3 demo_env (demo_config\<lparr>D_nl := ''elu''\<rparr>) = ([], Some (Inl (KeyError ''elu'')))"
    using run_unrecognized_identifier [of demo_env "demo_config\<lparr>D_nl := ''elu''\<rparr>" 3] h'
    by (simp add: demo_env_def demo_config_def)
  from h h' a b show ?thesis by blast
qed

text \<open>
  The same input against the sentence of the specification: the error raised is a
  \<^const>\<open>KeyError\<close>, not a \<^const>\<open>ConfigError\<close>.
\<close>

theorem run_unrecognized_identifier_not_ConfigError:
  "run 3 demo_env (demo_config\<lparr>dataset := ''I128''\<rparr>) = ([], Some (Inl (KeyError ''I128'')))
   \<and> snd (run 3 demo_env (demo_config\<lparr>dataset := ''I128''\<rparr>)) \<noteq> Some (Inl ConfigError)"
  by (simp add: run_def prepare_def configure_def resolve_def demo_env_def demo_config_def)

subsection \<open>Auxiliary facts: the setup\<close>

lemma prepare_Inr:
  assumes "prepare env c = (tr, Inr (l, h))"
  shows "\<exists>c' tr1. configure env c = Inr c'
           \<and> check_intervals c' = Inr ()
           \<and> restore env (experiment_name_of env c') (new_heap env c') = (tr1, Inr h)
           \<and> l = make_locals env c' (h_config h) (experiment_name_of env c') (itr (h_sd h))
           \<and> tr = build_events c' @ tr1
                   @ log_events env (h_config h) (experiment_name_of env c')
                   @ data_events (h_config h) (itr (h_sd h))"
  using assms
  by (auto simp: prepare_def Let_def split: sum.splits prod.splits)

lemma prepare_locals:
  assumes "prepare env c = (tr, Inr (l, h))"
  shows "l_G_batch_size l = max (G_batch_size (h_config h)) (batch_size (h_config h))"
    and "l_loader l = utils_get_data_loaders env
           ((h_config h)\<lparr>batch_size := D_batch_size (h_config h)\<rparr>) (itr (h_sd h))"
proof -
  from prepare_Inr [OF assms] obtain c' where
    l: "l = make_locals env c' (h_config h) (experiment_name_of env c') (itr (h_sd h))"
    by blast
  show "l_G_batch_size l = max (G_batch_size (h_config h)) (batch_size (h_config h))"
    and "l_loader l = utils_get_data_loaders env
           ((h_config h)\<lparr>batch_size := D_batch_size (h_config h)\<rparr>) (itr (h_sd h))"
    by (simp_all add: l make_locals_def)
qed

lemma restore_fresh:
  assumes "\<not> resume (h_config h)"
  shows "restore env n h = ([], Inr h)"
  using assms by (simp add: restore_def)

lemma prepare_fresh:
  assumes "configure env c = Inr c'" and "\<not> resume c'"
      and "prepare env c = (tr, Inr (l, h))"
  shows "h = new_heap env c'"
    and "tr = build_events c' @ log_events env c' (experiment_name_of env c')
              @ data_events c' 0"
proof -
  from prepare_Inr [OF assms(3)] assms(1) obtain tr1 where
    r: "restore env (experiment_name_of env c') (new_heap env c') = (tr1, Inr h)" and
    tr: "tr = build_events c' @ tr1
                   @ log_events env (h_config h) (experiment_name_of env c')
                   @ data_events (h_config h) (itr (h_sd h))"
    by auto
  have "\<not> resume (h_config (new_heap env c'))"
    using assms(2) by (simp add: new_heap_def)
  from restore_fresh [OF this, of env "experiment_name_of env c'"] r
  have h: "h = new_heap env c'" and t: "tr1 = []"
    by simp_all
  show "h = new_heap env c'" by (rule h)
  show "tr = build_events c' @ log_events env c' (experiment_name_of env c')
              @ data_events c' 0"
    by (simp add: tr t h new_heap_def new_state_dict_def)
qed

lemma check_intervals_cases:
  "check_intervals c =
     (if num_devices c = 0 then Inl ZeroDivisionError
      else if save_every c mod num_devices c \<noteq> 0 \<or> test_every c mod num_devices c \<noteq> 0
        then Inl AssertionError else Inr ())"
  by (simp add: check_intervals_def py_mod_def)

lemma hd_build_events: "\<exists>tr'. build_events c @ tr = SeedRng (seed c) # tr'"
  by (simp add: build_events_def)

lemma prepare_fresh_succeeds:
  assumes "configure env c = Inr c'" and "\<not> resume c'"
      and "num_devices c' \<noteq> 0"
      and "save_every c' mod num_devices c' = 0" and "test_every c' mod num_devices c' = 0"
  shows "prepare env c =
           (build_events c' @ log_events env c' (experiment_name_of env c')
              @ data_events c' 0,
            Inr (make_locals env c' c' (experiment_name_of env c') 0, new_heap env c'))"
proof -
  have ok: "check_intervals c' = Inr ()"
    using assms(3-5) by (simp add: check_intervals_cases)
  have "\<not> resume (h_config (new_heap env c'))"
    using assms(2) by (simp add: new_heap_def)
  from restore_fresh [OF this]
  have r: "restore env (experiment_name_of env c') (new_heap env c') = ([], Inr (new_heap env c'))" .
  have hc: "h_config (new_heap env c') = c'" and hi: "itr (h_sd (new_heap env c')) = 0"
    by (simp_all add: new_heap_def new_state_dict_def)
  show ?thesis
    by (simp add: prepare_def assms(1) ok r Let_def hc hi)
qed

subsection \<open>The interval assertions (lines 61-62)\<close>

text \<open>
  Claim C9, as the code has it. The assertions of lines 61-62 are reached only after the table
  lookups of lines 51-54 have succeeded, they read the configuration that
  \<open>utils.update_config_roots\<close> returned at line 59, and they compute
  \<open>save_every % num_devices\<close>, which raises \<open>ZeroDivisionError\<close> when \<open>num_devices\<close> is 0. So:
  when lines 51-59 leave the configuration \<open>c'\<close> and its \<open>num_devices\<close> is not 0,
  \<^const>\<open>run\<close> fails with \<^const>\<open>AssertionError\<close> and an empty trace (before seeding, model
  construction and training) as soon as \<open>save_every\<close> or \<open>test_every\<close> of \<open>c'\<close> is not a multiple
  of its \<open>num_devices\<close>; and when both are multiples the assertions do not fire: the run goes
  on to seed the random number generator, the first event of its trace.
\<close>

theorem run_interval_assertions:
  assumes "configure env c = Inr c'" and "num_devices c' \<noteq> 0"
  shows "(save_every c' mod num_devices c' \<noteq> 0 \<or> test_every c' mod num_devices c' \<noteq> 0
            \<longrightarrow> run fuel env c = ([], Some (Inl AssertionError)))
       \<and> (save_every c' mod num_devices c' = 0 \<and> test_every c' mod num_devices c' = 0
            \<longrightarrow> (\<exists>tr. fst (run fuel env c) = SeedRng (seed c') # tr))"
proof (intro conjI impI)
  assume "save_every c' mod num_devices c' \<noteq> 0 \<or> test_every c' mod num_devices c' \<noteq> 0"
  then have "check_intervals c' = Inl AssertionError"
    using assms(2) by (simp add: check_intervals_cases)
  then show "run fuel env c = ([], Some (Inl AssertionError))"
    by (simp add: run_def prepare_def assms(1))
next
  assume "save_every c' mod num_devices c' = 0 \<and> test_every c' mod num_devices c' = 0"
  then have ok: "check_intervals c' = Inr ()"
    using assms(2) by (simp add: check_intervals_cases)
  have "\<exists>tr. fst (run fuel env c) = build_events c' @ tr"
    by (auto simp: run_def prepare_def assms(1) ok Let_def split: sum.splits prod.splits)
  then show "\<exists>tr. fst (run fuel env c) = SeedRng (seed c') # tr"
    using hd_build_events [of c'] by auto
qed

text \<open>
  With 4 devices, \<open>save_every = 6\<close> fails the first assertion, and the demonstration
  configuration (\<open>save_every = 8\<close>, \<open>test_every = 4\<close>) passes both and starts by seeding.
\<close>

theorem run_interval_assertions_witness:
  "\<not> isl (configure demo_env (demo_config\<lparr>save_every := 6\<rparr>))
   \<and> save_every (projr (configure demo_env (demo_config\<lparr>save_every := 6\<rparr>))) = 6
   \<and> num_devices (projr (configure demo_env (demo_config\<lparr>save_every := 6\<rparr>))) = 4
   \<and> run 3 demo_env (demo_config\<lparr>save_every := 6\<rparr>) = ([], Some (Inl AssertionError))
   \<and> \<not> isl (configure demo_env demo_config)
   \<and> (\<exists>tr. fst (run 3 demo_env demo_config) = SeedRng 0 # tr)"
proof -
  obtain c6 where c6: "configure demo_env (demo_config\<lparr>save_every := 6\<rparr>) = Inr c6"
    and f6: "save_every c6 = 6" "num_devices c6 = 4" "test_every c6 = 4"
    by (simp add: configure_def resolve_def update_config_def demo_env_def demo_config_def)
  obtain c8 where c8: "configure demo_env demo_config = Inr c8"
    and f8: "save_every c8 = 8" "num_devices c8 = 4" "test_every c8 = 4" "seed c8 = 0"
    by (simp add: configure_def resolve_def update_config_def demo_env_def demo_config_def)
  have a: "run 3 demo_env (demo_config\<lparr>save_every := 6\<rparr>) = ([], Some (Inl AssertionError))"
    using run_interval_assertions [OF c6, of 3] by (simp add: f6)
  have b: "\<exists>tr. fst (run 3 demo_env demo_config) = SeedRng 0 # tr"
    using run_interval_assertions [OF c8, of 3] by (simp add: f8)
  show ?thesis using a b by (simp add: c6 c8 f6)
qed

text \<open>
  Two configurations on which the sentence of the specification fails: with an unknown
  dataset the \<^const>\<open>KeyError\<close> of line 51 comes first although \<open>save_every = 6\<close> is not a
  multiple of 4; with \<open>num_devices = 0\<close> nothing is a multiple of \<open>num_devices\<close> in Python's
  sense and the run fails with \<^const>\<open>ZeroDivisionError\<close>, not with an assertion error.
\<close>

theorem run_interval_assertions_preempted:
  "run 3 demo_env (demo_config\<lparr>dataset := ''I128'', save_every := 6\<rparr>)
     = ([], Some (Inl (KeyError ''I128'')))
   \<and> run 3 demo_env (demo_config\<lparr>num_devices := 0\<rparr>) = ([], Some (Inl ZeroDivisionError))"
  by (simp add: run_def prepare_def configure_def resolve_def check_intervals_def py_mod_def
      update_config_def demo_env_def demo_config_def Let_def)

subsection \<open>The fresh state dictionary (lines 111-112)\<close>

text \<open>
  Claim C4, as the code has it. In a run that does not resume (the configuration that lines
  51-59 leave has \<open>resume\<close> false), the state dictionary with which the training loop starts has
  \<open>itr\<close>, \<open>save_num\<close>, \<open>save_best_num\<close> and \<open>best_IS\<close> equal to 0, and no training step has been
  executed while it was set up; but \<open>best_FID\<close>, one of the two best-metric bookmarks, starts
  at 999999 and not at zero. Such a run does reach the loop whenever the assertions of lines
  61-62 pass.
\<close>

theorem fresh_state_dict:
  assumes "configure env c = Inr c'" and "\<not> resume c'"
  shows "(\<forall>tr l h. prepare env c = (tr, Inr (l, h))
            \<longrightarrow> itr (h_sd h) = 0 \<and> save_num (h_sd h) = 0 \<and> save_best_num (h_sd h) = 0
                \<and> best_IS (h_sd h) = 0 \<and> best_FID (h_sd h) = 999999 \<and> train_calls tr = [])
       \<and> (num_devices c' \<noteq> 0 \<and> save_every c' mod num_devices c' = 0
            \<and> test_every c' mod num_devices c' = 0
          \<longrightarrow> (\<exists>tr l h. prepare env c = (tr, Inr (l, h))))"
proof (rule conjI)
  show "\<forall>tr l h. prepare env c = (tr, Inr (l, h))
            \<longrightarrow> itr (h_sd h) = 0 \<and> save_num (h_sd h) = 0 \<and> save_best_num (h_sd h) = 0
                \<and> best_IS (h_sd h) = 0 \<and> best_FID (h_sd h) = 999999 \<and> train_calls tr = []"
  proof (intro allI impI)
    fix tr l h
    assume p: "prepare env c = (tr, Inr (l, h))"
    note f = prepare_fresh [OF assms p]
    have "train_calls tr = []"
      by (simp add: f(2) train_calls_def map_filter_append build_events_def log_events_def
          data_events_def)
    then show "itr (h_sd h) = 0 \<and> save_num (h_sd h) = 0 \<and> save_best_num (h_sd h) = 0
                \<and> best_IS (h_sd h) = 0 \<and> best_FID (h_sd h) = 999999 \<and> train_calls tr = []"
      by (simp add: f(1) new_heap_def new_state_dict_def)
  qed
  show "num_devices c' \<noteq> 0 \<and> save_every c' mod num_devices c' = 0
            \<and> test_every c' mod num_devices c' = 0
          \<longrightarrow> (\<exists>tr l h. prepare env c = (tr, Inr (l, h)))"
  proof
    assume "num_devices c' \<noteq> 0 \<and> save_every c' mod num_devices c' = 0
              \<and> test_every c' mod num_devices c' = 0"
    then have "num_devices c' \<noteq> 0" "save_every c' mod num_devices c' = 0"
      "test_every c' mod num_devices c' = 0" by simp_all
    from prepare_fresh_succeeds [OF assms this]
    show "\<exists>tr l h. prepare env c = (tr, Inr (l, h))" by blast
  qed
qed

text \<open>The demonstration run does not resume; its state dictionary starts as stated.\<close>

theorem fresh_state_dict_witness:
  "\<not> isl (configure demo_env demo_config)
   \<and> \<not> resume (projr (configure demo_env demo_config))
   \<and> \<not> isl (snd (prepare demo_env demo_config))
   \<and> itr (h_sd (snd (projr (snd (prepare demo_env demo_config))))) = 0
   \<and> save_num (h_sd (snd (projr (snd (prepare demo_env demo_config))))) = 0
   \<and> save_best_num (h_sd (snd (projr (snd (prepare demo_env demo_config))))) = 0
   \<and> best_IS (h_sd (snd (projr (snd (prepare demo_env demo_config))))) = 0
   \<and> best_FID (h_sd (snd (projr (snd (prepare demo_env demo_config))))) = 999999
   \<and> train_calls (fst (prepare demo_env demo_config)) = []"
proof -
  obtain c' where c: "configure demo_env demo_config = Inr c'" and nr: "\<not> resume c'"
    by (simp add: configure_def resolve_def update_config_def demo_env_def demo_config_def)
  have ok: "\<not> isl (snd (prepare demo_env demo_config))" by code_simp
  then obtain tr l h where p: "prepare demo_env demo_config = (tr, Inr (l, h))"
    by (cases "prepare demo_env demo_config"; cases "snd (prepare demo_env demo_config)") auto
  from fresh_state_dict [OF c nr] p
  have "itr (h_sd h) = 0 \<and> save_num (h_sd h) = 0 \<and> save_best_num (h_sd h) = 0
        \<and> best_IS (h_sd h) = 0 \<and> best_FID (h_sd h) = 999999 \<and> train_calls tr = []"
    by blast
  then show ?thesis using nr by (simp add: p c)
qed

text \<open>
  The same run against the sentence of the specification: \<open>best_FID\<close> is 999999 at the
  start, not zero.
\<close>

theorem fresh_state_dict_best_FID_nonzero:
  "\<not> resume demo_config
   \<and> (case snd (prepare demo_env demo_config) of Inl e \<Rightarrow> None
       | Inr (l, h) \<Rightarrow> Some (itr (h_sd h), save_num (h_sd h), save_best_num (h_sd h),
                             best_IS (h_sd h), best_FID (h_sd h)))
     = Some (0, 0, 0, 0, 999999)
   \<and> best_FID (new_state_dict demo_config) \<noteq> 0"
proof -
  have nr: "\<not> resume demo_config" by (simp add: demo_config_def)
  have "(case snd (prepare demo_env demo_config) of Inl e \<Rightarrow> None
       | Inr (l, h) \<Rightarrow> Some (itr (h_sd h), save_num (h_sd h), save_best_num (h_sd h),
                             best_IS (h_sd h), best_FID (h_sd h)))
     = Some (0, 0, 0, 0, 999999)" by code_simp
  moreover have "best_FID (new_state_dict demo_config) \<noteq> 0" by (simp add: new_state_dict_def)
  ultimately show ?thesis using nr by simp
qed

subsection \<open>Auxiliary facts: one pass of the body of the loop\<close>

lemma fst_and_then:
  "fst (and_then r f) = fst r @ (case snd r of Inl e \<Rightarrow> [] | Inr a \<Rightarrow> fst (f a))"
  by (simp add: and_then_def split: prod.splits sum.splits)

lemma snd_and_then:
  "snd (and_then r f) = (case snd r of Inl e \<Rightarrow> Inl e | Inr a \<Rightarrow> snd (f a))"
  by (simp add: and_then_def split: prod.splits sum.splits)

lemma fst_after_train:
  "fst (after_train env l m h) =
     fst (iteration_log env m h) @
     (case snd (iteration_log env m h) of
        Inl e \<Rightarrow> []
      | Inr u \<Rightarrow>
          fst (save_phase env l h) @
          (case snd (save_phase env l h) of
             Inl e \<Rightarrow> []
           | Inr h2 \<Rightarrow> fst (test_phase env l h2)))"
  by (simp add: after_train_def fst_and_then snd_and_then split: sum.splits)

lemma snd_after_train:
  "snd (after_train env l m h) =
     (case snd (iteration_log env m h) of
        Inl e \<Rightarrow> Inl e
      | Inr u \<Rightarrow>
          (case snd (save_phase env l h) of
             Inl e \<Rightarrow> Inl e
           | Inr h2 \<Rightarrow> snd (test_phase env l h2)))"
  by (simp add: after_train_def snd_and_then split: sum.splits)

lemma fst_step:
  "fst (step env l b h) =
     fst (train_call env l b h) @
     (case snd (train_call env l b h) of
        Inl e \<Rightarrow> []
      | Inr (m, h1) \<Rightarrow> fst (after_train env l m h1))"
  by (simp add: step_def fst_and_then split: sum.splits prod.splits)

lemma snd_step:
  "snd (step env l b h) =
     (case snd (train_call env l b h) of
        Inl e \<Rightarrow> Inl e
      | Inr (m, h1) \<Rightarrow> snd (after_train env l m h1))"
  by (simp add: step_def snd_and_then split: sum.splits prod.splits)

lemma itr_advance: "itr (h_sd (advance h)) = itr (h_sd h) + num_devices (h_config h)"
  by (simp add: advance_def)

lemma h_config_advance: "h_config (advance h) = h_config h"
  by (simp add: advance_def)

lemma fst_train_call:
  "fst (train_call env l b h) =
     (if xm_is_master_ordinal env then [PbarUpdate (num_devices (h_config h))] else [])
     @ [SetTrain Generator, SetTrain Discriminator]
     @ (if ema (h_config h) \<and> \<not> l_G_ema l then []
        else (if ema (h_config h) then [SetTrain Generator_ema] else [])
             @ [ToDevice (D_fp16 (h_config h)),
                TrainCall (itr (h_sd h) + num_devices (h_config h))])"
  by (simp add: train_call_def Let_def itr_advance)

lemma snd_train_call:
  "snd (train_call env l b h) =
     (if ema (h_config h) \<and> \<not> l_G_ema l then Inl AttributeError
      else train_fns_GAN_training_function env (l_G_batch_size l) (advance h) b)"
  by (simp add: train_call_def Let_def)

lemma set_train_call:
  "set (fst (train_call env l b h)) \<subseteq>
     {PbarUpdate (num_devices (h_config h)), SetTrain Generator, SetTrain Discriminator,
      SetTrain Generator_ema, ToDevice (D_fp16 (h_config h)),
      TrainCall (itr (h_sd h) + num_devices (h_config h))}"
  by (auto simp: fst_train_call)

lemma set_iteration_log:
  "set (fst (iteration_log env m h)) \<subseteq>
     (if xm_is_master_ordinal env
      then {TrainLog (itr (h_sd h)) m, PbarDescription (itr (h_sd h)),
            SVLog (itr (h_sd h))
              (utils_get_SVs env (h_world h) Generator
               ++ utils_get_SVs env (h_world h) Discriminator)}
      else {})"
  by (auto simp: iteration_log_def Let_def)

lemma snd_iteration_log:
  "snd (iteration_log env m h) =
     (if xm_is_master_ordinal env \<and> m ''itr'' \<noteq> None then Inl TypeError
      else if 0 < sv_log_interval (h_config h)
              \<and> itr (h_sd h) mod sv_log_interval (h_config h) = 0
              \<and> xm_is_master_ordinal env
              \<and> (utils_get_SVs env (h_world h) Generator
                  ++ utils_get_SVs env (h_world h) Discriminator) ''itr'' \<noteq> None
        then Inl TypeError
        else Inr ())"
  by (simp add: iteration_log_def Let_def)

lemma set_save_phase:
  "set (fst (save_phase env l h)) \<subseteq>
     {SetEval Generator, SetEval Generator_ema, SaveAndSample (itr (h_sd h)) (l_G_batch_size l)}"
  by (auto simp: save_phase_def Let_def split: sum.splits if_splits)

lemma set_test_phase:
  "set (fst (test_phase env l h)) \<subseteq>
     {SetEval Generator, TestCall (itr (h_sd h)) (l_G_batch_size l)}"
  by (auto simp: test_phase_def Let_def split: sum.splits if_splits)

lemma snd_save_phase:
  "snd (save_phase env l h) =
     (if save_every (h_config h) = 0 then Inl ZeroDivisionError
      else if itr (h_sd h) mod save_every (h_config h) = 0
        then (if G_eval_mode (h_config h) \<and> ema (h_config h) \<and> \<not> l_G_ema l
              then Inl AttributeError
              else train_fns_save_and_sample env (l_G_batch_size l) (l_experiment_name l) h)
        else Inr h)"
  by (simp add: save_phase_def py_mod_def Let_def)

lemma snd_test_phase:
  "snd (test_phase env l h) =
     (if test_every (h_config h) = 0 then Inl ZeroDivisionError
      else if itr (h_sd h) mod test_every (h_config h) = 0
        then train_fns_test env (l_G_batch_size l) (l_experiment_name l) h
        else Inr h)"
  by (simp add: test_phase_def py_mod_def Let_def)

lemma step_events:
  assumes "\<forall>e \<in> set (fst (train_call env l b h)). Q e"
      and "\<forall>m h1. \<forall>e \<in> set (fst (iteration_log env m h1)). Q e"
      and "\<forall>h1. \<forall>e \<in> set (fst (save_phase env l h1)). Q e"
      and "\<forall>h2. \<forall>e \<in> set (fst (test_phase env l h2)). Q e"
  shows "\<forall>e \<in> set (fst (step env l b h)). Q e"
proof -
  have "\<forall>e \<in> set (fst (after_train env l m h1)). Q e" for m h1
  proof -
    from assms(2) have il: "\<forall>e \<in> set (fst (iteration_log env m h1)). Q e" by blast
    from assms(3) have sp: "\<forall>e \<in> set (fst (save_phase env l h1)). Q e" by blast
    from assms(4) have tp: "\<And>h2. \<forall>e \<in> set (fst (test_phase env l h2)). Q e" by blast
    show ?thesis
      using il sp tp by (auto simp: fst_after_train split: sum.splits)
  qed
  then show ?thesis
    using assms(1) by (auto simp: fst_step split: sum.splits)
qed

lemma keeps_itr_train:
  assumes "keeps_itr env l" and "snd (train_call env l b h) = Inr (m, h1)"
  shows "itr (h_sd h1) = itr (h_sd h) + num_devices (h_config h)"
proof -
  from assms(2) have
    "train_fns_GAN_training_function env (l_G_batch_size l) (advance h) b = Inr (m, h1)"
    by (simp add: snd_train_call split: if_splits)
  with assms(1) have "itr (h_sd h1) = itr (h_sd (advance h))"
    unfolding keeps_itr_def by blast
  then show ?thesis by (simp add: itr_advance)
qed

lemma keeps_itr_save:
  assumes "keeps_itr env l" and "snd (save_phase env l h) = Inr h'"
  shows "itr (h_sd h') = itr (h_sd h)"
proof -
  from assms(2) have
    "train_fns_save_and_sample env (l_G_batch_size l) (l_experiment_name l) h = Inr h'
     \<or> h' = h"
    by (simp add: snd_save_phase split: if_splits)
  with assms(1) show ?thesis
    unfolding keeps_itr_def by blast
qed

lemma keeps_itr_test:
  assumes "keeps_itr env l" and "snd (test_phase env l h) = Inr h'"
  shows "itr (h_sd h') = itr (h_sd h)"
proof -
  from assms(2) have
    "train_fns_test env (l_G_batch_size l) (l_experiment_name l) h = Inr h' \<or> h' = h"
    by (simp add: snd_test_phase split: if_splits)
  with assms(1) show ?thesis
    unfolding keeps_itr_def by blast
qed

lemma keeps_config_train:
  assumes "keeps_config env l" and "snd (train_call env l b h) = Inr (m, h1)"
  shows "h_config h1 = h_config h"
proof -
  from assms(2) have
    "train_fns_GAN_training_function env (l_G_batch_size l) (advance h) b = Inr (m, h1)"
    by (simp add: snd_train_call split: if_splits)
  with assms(1) have "h_config h1 = h_config (advance h)"
    unfolding keeps_config_def by blast
  then show ?thesis by (simp add: h_config_advance)
qed

lemma keeps_config_save:
  assumes "keeps_config env l" and "snd (save_phase env l h) = Inr h'"
  shows "h_config h' = h_config h"
proof -
  from assms(2) have
    "train_fns_save_and_sample env (l_G_batch_size l) (l_experiment_name l) h = Inr h'
     \<or> h' = h"
    by (simp add: snd_save_phase split: if_splits)
  with assms(1) show ?thesis
    unfolding keeps_config_def by blast
qed

lemma keeps_config_test:
  assumes "keeps_config env l" and "snd (test_phase env l h) = Inr h'"
  shows "h_config h' = h_config h"
proof -
  from assms(2) have
    "train_fns_test env (l_G_batch_size l) (l_experiment_name l) h = Inr h' \<or> h' = h"
    by (simp add: snd_test_phase split: if_splits)
  with assms(1) show ?thesis
    unfolding keeps_config_def by blast
qed

lemma step_Inr:
  assumes "snd (step env l b h) = Inr h'"
  obtains m h1 h2 where "snd (train_call env l b h) = Inr (m, h1)"
    and "snd (iteration_log env m h1) = Inr ()"
    and "snd (save_phase env l h1) = Inr h2"
    and "snd (test_phase env l h2) = Inr h'"
  using assms by (auto simp: snd_step snd_after_train split: sum.splits)

lemma step_itr:
  assumes "keeps_itr env l" and "snd (step env l b h) = Inr h'"
  shows "itr (h_sd h') = itr (h_sd h) + num_devices (h_config h)"
proof -
  from assms(2) obtain m h1 h2 where
    t: "snd (train_call env l b h) = Inr (m, h1)" and
    sv: "snd (save_phase env l h1) = Inr h2" and
    te: "snd (test_phase env l h2) = Inr h'"
    by (rule step_Inr)
  from keeps_itr_test [OF assms(1) te] keeps_itr_save [OF assms(1) sv]
    keeps_itr_train [OF assms(1) t]
  show ?thesis by simp
qed

lemma step_config:
  assumes "keeps_config env l" and "snd (step env l b h) = Inr h'"
  shows "h_config h' = h_config h"
proof -
  from assms(2) obtain m h1 h2 where
    t: "snd (train_call env l b h) = Inr (m, h1)" and
    sv: "snd (save_phase env l h1) = Inr h2" and
    te: "snd (test_phase env l h2) = Inr h'"
    by (rule step_Inr)
  from keeps_config_test [OF assms(1) te] keeps_config_save [OF assms(1) sv]
    keeps_config_train [OF assms(1) t]
  show ?thesis by simp
qed

subsection \<open>Auxiliary facts: the loops and their traces\<close>

lemma fst_for_loop_Cons:
  "fst (for_loop env l (b # bs) h) =
     fst (step env l b h) @
     (case snd (step env l b h) of
        Inl e \<Rightarrow> []
      | Inr h' \<Rightarrow>
          if total_steps (h_config h') \<le> itr (h_sd h') then []
          else fst (for_loop env l bs h'))"
  by (simp split: prod.splits sum.splits)

lemma snd_for_loop_Cons:
  "snd (for_loop env l (b # bs) h) =
     (case snd (step env l b h) of
        Inl e \<Rightarrow> Inl e
      | Inr h' \<Rightarrow>
          if total_steps (h_config h') \<le> itr (h_sd h') then Inr h'
          else snd (for_loop env l bs h'))"
  by (simp split: prod.splits sum.splits)

lemma fst_while_loop_Suc:
  "fst (while_loop (Suc fuel) env l pass h) =
     (if itr (h_sd h) < total_steps (h_config h)
      then PerDeviceLoader pass # fst (for_loop env l (l_loader l pass) h) @
           (case snd (for_loop env l (l_loader l pass) h) of
              Inl e \<Rightarrow> []
            | Inr h' \<Rightarrow> PbarClose # fst (while_loop fuel env l (Suc pass) h'))
      else [])"
  by (simp split: prod.splits sum.splits)

lemma snd_while_loop_Suc:
  "snd (while_loop (Suc fuel) env l pass h) =
     (if itr (h_sd h) < total_steps (h_config h)
      then (case snd (for_loop env l (l_loader l pass) h) of
              Inl e \<Rightarrow> Some (Inl e)
            | Inr h' \<Rightarrow> snd (while_loop fuel env l (Suc pass) h'))
      else Some (Inr h))"
  by (simp split: prod.splits sum.splits)

lemma fst_while_loop_0: "fst (while_loop 0 env l pass h) = []"
  by simp

lemma snd_while_loop_0:
  "snd (while_loop 0 env l pass h) =
     (if itr (h_sd h) < total_steps (h_config h) then None else Some (Inr h))"
  by simp

lemma for_loop_events:
  assumes "\<forall>b h. \<forall>e \<in> set (fst (step env l b h)). Q e"
  shows "\<forall>e \<in> set (fst (for_loop env l bs h)). Q e"
proof (induction bs arbitrary: h)
  case Nil
  show ?case by simp
next
  case (Cons b bs)
  from assms have st: "\<forall>e \<in> set (fst (step env l b h)). Q e"
    by blast
  show ?case
  proof (cases "snd (step env l b h)")
    case (Inl x)
    then show ?thesis
      using st by (simp add: fst_for_loop_Cons del: for_loop.simps)
  next
    case (Inr h')
    then show ?thesis
      using st Cons.IH [of h']
      by (simp add: fst_for_loop_Cons ball_Un del: for_loop.simps)
  qed
qed

lemma while_loop_events:
  assumes "\<forall>b h. \<forall>e \<in> set (fst (step env l b h)). Q e"
      and "\<forall>p. Q (PerDeviceLoader p)" and "Q PbarClose"
  shows "\<forall>e \<in> set (fst (while_loop fuel env l pass h)). Q e"
proof (induction fuel arbitrary: pass h)
  case 0
  show ?case by simp
next
  case (Suc fuel)
  have f: "\<forall>e \<in> set (fst (for_loop env l (l_loader l pass) h)). Q e"
    by (rule for_loop_events [OF assms(1)])
  from assms(2) have pd: "Q (PerDeviceLoader pass)"
    by blast
  show ?case
  proof (cases "snd (for_loop env l (l_loader l pass) h)")
    case (Inl x)
    then show ?thesis
      using pd f by (auto simp add: fst_while_loop_Suc simp del: while_loop.simps)
  next
    case (Inr h')
    then show ?thesis
      using pd assms(3) f Suc.IH [where pass = "Suc pass" and h = h']
      by (auto simp add: fst_while_loop_Suc simp del: while_loop.simps)
  qed
qed

lemma fst_prepare:
  "fst (prepare env c) =
     (case configure env c of
        Inl e \<Rightarrow> []
      | Inr c' \<Rightarrow>
          (case check_intervals c' of
             Inl e \<Rightarrow> []
           | Inr u \<Rightarrow>
               build_events c'
               @ fst (restore env (experiment_name_of env c') (new_heap env c'))
               @ (case snd (restore env (experiment_name_of env c') (new_heap env c')) of
                    Inl e \<Rightarrow> []
                  | Inr h \<Rightarrow>
                      log_events env (h_config h) (experiment_name_of env c')
                      @ data_events (h_config h) (itr (h_sd h)))))"
  by (simp add: prepare_def Let_def split: sum.splits prod.splits)

lemma snd_prepare:
  "snd (prepare env c) =
     (case configure env c of
        Inl e \<Rightarrow> Inl e
      | Inr c' \<Rightarrow>
          (case check_intervals c' of
             Inl e \<Rightarrow> Inl e
           | Inr u \<Rightarrow>
               (case snd (restore env (experiment_name_of env c') (new_heap env c')) of
                  Inl e \<Rightarrow> Inl e
                | Inr h \<Rightarrow>
                    Inr (make_locals env c' (h_config h) (experiment_name_of env c')
                           (itr (h_sd h)), h))))"
  by (simp add: prepare_def Let_def split: sum.splits prod.splits)

lemma fst_run:
  "fst (run fuel env c) =
     fst (prepare env c)
     @ (case snd (prepare env c) of
          Inl e \<Rightarrow> []
        | Inr (l, h) \<Rightarrow> fst (while_loop fuel env l 0 h))"
  by (simp add: run_def split: sum.splits prod.splits)

lemma snd_run:
  "snd (run fuel env c) =
     (case snd (prepare env c) of
        Inl e \<Rightarrow> Some (Inl e)
      | Inr (l, h) \<Rightarrow> snd (while_loop fuel env l 0 h))"
  by (simp add: run_def split: sum.splits prod.splits)

lemma snd_run_Inr:
  assumes "prepare env c = (tr0, Inr (l, h0))"
  shows "snd (run fuel env c) = snd (while_loop fuel env l 0 h0)"
  using assms by (simp add: snd_run)

lemma set_restore:
  "set (fst (restore env n h)) \<subseteq>
     {LoadWeights (weights_root (h_config h)) n
        (if load_weights (h_config h) \<noteq> [] then Some (load_weights (h_config h)) else None)
        (ema (h_config h))}"
  by (auto simp: restore_def Let_def)

lemma prepare_events:
  assumes "\<forall>c'. configure env c = Inr c' \<longrightarrow> (\<forall>e \<in> set (build_events c'). Q e)"
      and "\<forall>r n f b. Q (LoadWeights r n f b)"
      and "\<forall>c' n. \<forall>e \<in> set (log_events env c' n). Q e"
      and "\<forall>tr l h. prepare env c = (tr, Inr (l, h))
             \<longrightarrow> (\<forall>e \<in> set (data_events (h_config h) (itr (h_sd h))). Q e)"
  shows "\<forall>e \<in> set (fst (prepare env c)). Q e"
proof (cases "prepare env c")
  case (Pair tr r)
  show ?thesis
  proof (cases r)
    case (Inl e)
    have rs: "\<forall>e \<in> set (fst (restore env n h)). Q e" for n h
      using assms(2) set_restore [of env n h] by blast
    from Pair Inl have "snd (prepare env c) = Inl e" by simp
    then show ?thesis
      using assms(1) rs
      by (auto simp: fst_prepare snd_prepare split: sum.splits)
  next
    case (Inr lh)
    obtain l h where lh: "lh = (l, h)" by (cases lh)
    from Pair Inr lh have p: "prepare env c = (tr, Inr (l, h))" by simp
    from prepare_Inr [OF p] obtain c' tr1 where
      cf: "configure env c = Inr c'" and
      r: "restore env (experiment_name_of env c') (new_heap env c') = (tr1, Inr h)" and
      tr: "tr = build_events c' @ tr1
                   @ log_events env (h_config h) (experiment_name_of env c')
                   @ data_events (h_config h) (itr (h_sd h))"
      by blast
    have t1: "\<forall>e \<in> set tr1. Q e"
      using assms(2) set_restore [of env "experiment_name_of env c'" "new_heap env c'"] r
      by auto
    from assms(4) p have d: "\<forall>e \<in> set (data_events (h_config h) (itr (h_sd h))). Q e"
      by blast
    from assms(1) cf have b: "\<forall>e \<in> set (build_events c'). Q e" by blast
    from assms(3) have lg:
      "\<forall>e \<in> set (log_events env (h_config h) (experiment_name_of env c')). Q e"
      by blast
    show ?thesis
      using b t1 lg d by (auto simp: p tr)
  qed
qed

lemma run_events:
  assumes "\<forall>e \<in> set (fst (prepare env c)). Q e"
      and "\<forall>tr l h0. prepare env c = (tr, Inr (l, h0))
             \<longrightarrow> (\<forall>b h. \<forall>e \<in> set (fst (step env l b h)). Q e)"
      and "\<forall>p. Q (PerDeviceLoader p)" and "Q PbarClose"
  shows "\<forall>e \<in> set (fst (run fuel env c)). Q e"
proof (cases "snd (prepare env c)")
  case (Inl e)
  then show ?thesis using assms(1) by (simp add: fst_run)
next
  case (Inr r)
  obtain l h where r: "r = (l, h)" by (cases r)
  have "prepare env c = (fst (prepare env c), Inr (l, h))"
    using Inr r by (cases "prepare env c") simp
  with assms(2) have "\<forall>b h. \<forall>e \<in> set (fst (step env l b h)). Q e" by blast
  from while_loop_events [where Q = Q, OF this assms(3) assms(4)]
  have "\<forall>e \<in> set (fst (while_loop fuel env l 0 h)). Q e" .
  then show ?thesis using assms(1) by (simp add: fst_run Inr r ball_Un)
qed

subsection \<open>Auxiliary facts: the calls of train\<close>

lemma progression_0: "progression x d 0 = []"
  by (simp add: progression_def)

lemma progression_Suc: "progression x d (Suc n) = (x + d) # progression (x + d) d n"
proof -
  have "[0..<Suc n] = 0 # map Suc [0..<n]"
    by (simp only: upt_conv_Cons [of 0 "Suc n"] map_Suc_upt zero_less_Suc)
  then have "progression x d (Suc n)
             = (x + d) # map (\<lambda>k. x + (int (Suc k) + 1) * d) [0..<n]"
    by (simp only: progression_def list.map map_map o_def) simp
  also have "map (\<lambda>k. x + (int (Suc k) + 1) * d) [0..<n]
             = map (\<lambda>k. (x + d) + (int k + 1) * d) [0..<n]"
    by (rule map_cong) (simp_all add: algebra_simps)
  finally show ?thesis by (simp only: progression_def)
qed

lemma length_progression: "length (progression x d n) = n"
  by (simp add: progression_def)

lemma progression_append:
  "progression x d n @ progression (x + int n * d) d m = progression x d (n + m)"
proof (induction n arbitrary: x)
  case 0
  then show ?case by (simp add: progression_0)
next
  case (Suc n)
  have e: "x + int (Suc n) * d = x + d + int n * d" by (simp add: algebra_simps)
  have "progression x d (Suc n) @ progression (x + int (Suc n) * d) d m
        = (x + d) # (progression (x + d) d n @ progression (x + d + int n * d) d m)"
    by (simp only: progression_Suc e append_Cons)
  also have "\<dots> = (x + d) # progression (x + d) d (n + m)"
    by (simp only: Suc)
  also have "\<dots> = progression x d (Suc n + m)"
    by (simp only: progression_Suc add_Suc)
  finally show ?case .
qed

lemma train_calls_append: "train_calls (xs @ ys) = train_calls xs @ train_calls ys"
  by (simp add: train_calls_def map_filter_append)

lemma train_calls_Nil: "train_calls [] = []"
  by (simp add: train_calls_def List.map_filter_def)

lemma train_calls_empty:
  assumes "\<forall>e \<in> set tr. train_call_itr e = None"
  shows "train_calls tr = []"
  using assms by (simp add: train_calls_def map_filter_empty_iff)

lemma train_calls_after_train: "train_calls (fst (after_train env l m h)) = []"
proof (rule train_calls_empty)
  have il: "\<forall>e \<in> set (fst (iteration_log env m h)). train_call_itr e = None"
    using set_iteration_log [of env m h] by (auto split: if_splits)
  have sp: "\<forall>e \<in> set (fst (save_phase env l h)). train_call_itr e = None"
    using set_save_phase [of env l h] by auto
  have tp: "\<forall>e \<in> set (fst (test_phase env l h2)). train_call_itr e = None" for h2
    using set_test_phase [of env l h2] by auto
  show "\<forall>e \<in> set (fst (after_train env l m h)). train_call_itr e = None"
    using il sp tp by (auto simp: fst_after_train split: sum.splits)
qed

lemma train_calls_train_call:
  "train_calls (fst (train_call env l b h)) =
     (if ema (h_config h) \<and> \<not> l_G_ema l then []
      else [itr (h_sd h) + num_devices (h_config h)])"
  by (simp add: fst_train_call train_calls_def List.map_filter_def)

lemma train_calls_step:
  "train_calls (fst (step env l b h)) =
     (if ema (h_config h) \<and> \<not> l_G_ema l then []
      else [itr (h_sd h) + num_devices (h_config h)])"
  by (simp add: fst_step train_calls_append train_calls_train_call train_calls_after_train
      train_calls_Nil split: sum.splits prod.splits)

lemma train_calls_step_Inr:
  assumes "snd (step env l b h) = Inr h'"
  shows "train_calls (fst (step env l b h)) = [itr (h_sd h) + num_devices (h_config h)]"
proof -
  from assms have "\<not> (ema (h_config h) \<and> \<not> l_G_ema l)"
    by (auto simp: snd_step snd_train_call split: sum.splits if_splits)
  then show ?thesis by (simp add: train_calls_step)
qed

lemma train_calls_step_cases:
  "train_calls (fst (step env l b h)) = progression (itr (h_sd h)) (num_devices (h_config h)) 0
   \<or> train_calls (fst (step env l b h))
       = progression (itr (h_sd h)) (num_devices (h_config h)) (Suc 0)"
  by (simp add: train_calls_step progression_Suc progression_0)

lemma for_loop_calls:
  assumes "keeps_itr env l" and "keeps_config env l"
  shows "\<exists>n. train_calls (fst (for_loop env l bs h))
               = progression (itr (h_sd h)) (num_devices (h_config h)) n
          \<and> (\<forall>h'. snd (for_loop env l bs h) = Inr h'
                \<longrightarrow> itr (h_sd h') = itr (h_sd h) + int n * num_devices (h_config h)
                    \<and> h_config h' = h_config h \<and> (bs \<noteq> [] \<longrightarrow> 0 < n))"
proof (induction bs arbitrary: h)
  case Nil
  show ?case by (rule exI [of _ 0]) (simp add: train_calls_Nil progression_0)
next
  case (Cons b bs)
  let ?d = "num_devices (h_config h)"
  show ?case
  proof (cases "snd (step env l b h)")
    case (Inl e)
    have s: "snd (for_loop env l (b # bs) h) = Inl e"
      by (simp add: snd_for_loop_Cons Inl del: for_loop.simps)
    have f: "fst (for_loop env l (b # bs) h) = fst (step env l b h)"
      by (simp add: fst_for_loop_Cons Inl del: for_loop.simps)
    from train_calls_step_cases [of env l b h] show ?thesis
      unfolding s f by auto
  next
    case (Inr h1)
    have i1: "itr (h_sd h1) = itr (h_sd h) + ?d"
      by (rule step_itr [OF assms(1) Inr])
    have c1: "h_config h1 = h_config h"
      by (rule step_config [OF assms(2) Inr])
    have t1: "train_calls (fst (step env l b h)) = [itr (h_sd h) + ?d]"
      by (rule train_calls_step_Inr [OF Inr])
    show ?thesis
    proof (cases "total_steps (h_config h1) \<le> itr (h_sd h1)")
      case True
      have f: "fst (for_loop env l (b # bs) h) = fst (step env l b h)"
        by (simp add: fst_for_loop_Cons Inr True del: for_loop.simps)
      have s: "snd (for_loop env l (b # bs) h) = Inr h1"
        by (simp add: snd_for_loop_Cons Inr True del: for_loop.simps)
      show ?thesis
        unfolding f s
        by (rule exI [of _ "Suc 0"]) (simp add: t1 progression_Suc progression_0 i1 c1)
    next
      case False
      from Cons.IH [where h = h1] obtain n where
        n: "train_calls (fst (for_loop env l bs h1)) = progression (itr (h_sd h1)) ?d n" and
        r: "\<forall>h'. snd (for_loop env l bs h1) = Inr h'
              \<longrightarrow> itr (h_sd h') = itr (h_sd h1) + int n * ?d \<and> h_config h' = h_config h1"
        unfolding c1 by blast
      have f: "fst (for_loop env l (b # bs) h)
               = fst (step env l b h) @ fst (for_loop env l bs h1)"
        by (simp add: fst_for_loop_Cons Inr False del: for_loop.simps)
      have a: "train_calls (fst (for_loop env l (b # bs) h))
            = progression (itr (h_sd h)) ?d (Suc n)"
        by (simp only: f train_calls_append t1 n progression_Suc i1 append_Cons append_Nil)
      have b: "snd (for_loop env l (b # bs) h) = snd (for_loop env l bs h1)"
        by (simp add: snd_for_loop_Cons Inr False del: for_loop.simps)
      have c: "itr (h_sd h1) + int n * ?d = itr (h_sd h) + int (Suc n) * ?d"
        by (simp add: i1 algebra_simps)
      show ?thesis
      proof (intro exI [of _ "Suc n"] conjI allI impI)
        show "train_calls (fst (for_loop env l (b # bs) h))
              = progression (itr (h_sd h)) ?d (Suc n)"
          by (rule a)
      next
        show "0 < Suc n" by simp
      next
        fix h'
        assume "snd (for_loop env l (b # bs) h) = Inr h'"
        then have e: "snd (for_loop env l bs h1) = Inr h'"
          by (simp only: b)
        with r have "itr (h_sd h') = itr (h_sd h1) + int n * ?d"
          by blast
        then show "itr (h_sd h') = itr (h_sd h) + int (Suc n) * ?d"
          by (simp only: c)
        from r e show "h_config h' = h_config h"
          by (simp add: c1)
      qed
    qed
  qed
qed

lemma while_loop_calls:
  assumes "keeps_itr env l" and "keeps_config env l"
  shows "\<exists>n. train_calls (fst (while_loop fuel env l pass h))
               = progression (itr (h_sd h)) (num_devices (h_config h)) n
          \<and> (\<forall>h'. snd (while_loop fuel env l pass h) = Some (Inr h')
                \<longrightarrow> itr (h_sd h') = itr (h_sd h) + int n * num_devices (h_config h)
                    \<and> h_config h' = h_config h)"
proof (induction fuel arbitrary: pass h)
  case 0
  show ?case by (rule exI [of _ 0]) (simp add: train_calls_Nil progression_0)
next
  case (Suc fuel)
  let ?d = "num_devices (h_config h)"
  let ?bs = "l_loader l pass"
  have pd: "\<And>p tr. train_calls (PerDeviceLoader p # tr) = train_calls tr"
    by (simp add: train_calls_def List.map_filter_def)
  have pc: "\<And>tr. train_calls (PbarClose # tr) = train_calls tr"
    by (simp add: train_calls_def List.map_filter_def)
  show ?case
  proof (cases "itr (h_sd h) < total_steps (h_config h)")
    case False
    show ?thesis
      by (rule exI [of _ 0])
        (simp add: fst_while_loop_Suc snd_while_loop_Suc False train_calls_Nil progression_0
          del: while_loop.simps)
  next
    case True
    from for_loop_calls [OF assms, where bs = ?bs and h = h] obtain n where
      n: "train_calls (fst (for_loop env l ?bs h)) = progression (itr (h_sd h)) ?d n" and
      r: "\<forall>h'. snd (for_loop env l ?bs h) = Inr h'
            \<longrightarrow> itr (h_sd h') = itr (h_sd h) + int n * ?d \<and> h_config h' = h_config h"
      by blast
    show ?thesis
    proof (cases "snd (for_loop env l ?bs h)")
      case (Inl e)
      show ?thesis
        by (rule exI [of _ n])
          (simp add: fst_while_loop_Suc snd_while_loop_Suc True Inl pd n del: while_loop.simps)
    next
      case (Inr h1)
      from r Inr have i1: "itr (h_sd h1) = itr (h_sd h) + int n * ?d"
        and c1: "h_config h1 = h_config h" by simp_all
      from Suc.IH [where pass = "Suc pass" and h = h1] obtain m where
        m: "train_calls (fst (while_loop fuel env l (Suc pass) h1))
              = progression (itr (h_sd h1)) ?d m" and
        r': "\<forall>h'. snd (while_loop fuel env l (Suc pass) h1) = Some (Inr h')
               \<longrightarrow> itr (h_sd h') = itr (h_sd h1) + int m * ?d \<and> h_config h' = h_config h1"
        unfolding c1 by blast
      have "train_calls (fst (while_loop (Suc fuel) env l pass h))
            = progression (itr (h_sd h)) ?d n @ progression (itr (h_sd h1)) ?d m"
        by (simp add: fst_while_loop_Suc True Inr pd pc train_calls_append n m
            del: while_loop.simps)
      then have a: "train_calls (fst (while_loop (Suc fuel) env l pass h))
                    = progression (itr (h_sd h)) ?d (n + m)"
        by (simp only: i1 progression_append)
      have b: "snd (while_loop (Suc fuel) env l pass h)
               = snd (while_loop fuel env l (Suc pass) h1)"
        by (simp add: snd_while_loop_Suc True Inr del: while_loop.simps)
      have c: "itr (h_sd h1) + int m * ?d = itr (h_sd h) + int (n + m) * ?d"
        by (simp add: i1 algebra_simps)
      show ?thesis
      proof (intro exI [of _ "n + m"] conjI allI impI)
        show "train_calls (fst (while_loop (Suc fuel) env l pass h))
              = progression (itr (h_sd h)) ?d (n + m)"
          by (rule a)
      next
        fix h'
        assume "snd (while_loop (Suc fuel) env l pass h) = Some (Inr h')"
        then have e: "snd (while_loop fuel env l (Suc pass) h1) = Some (Inr h')"
          by (simp only: b)
        with r' have "itr (h_sd h') = itr (h_sd h1) + int m * ?d"
          by blast
        then show "itr (h_sd h') = itr (h_sd h) + int (n + m) * ?d"
          by (simp only: c)
        from r' e show "h_config h' = h_config h"
          by (simp add: c1)
      qed
    qed
  qed
qed

subsection \<open>Auxiliary facts: the training log\<close>

lemma step_no_train_log:
  assumes "\<not> xm_is_master_ordinal env"
  shows "\<forall>e \<in> set (fst (step env l b s)). \<not> is_train_log e"
proof (rule step_events)
  show "\<forall>e \<in> set (fst (train_call env l b s)). \<not> is_train_log e"
    using set_train_call [of env l b s] by auto
  show "\<forall>m h1. \<forall>e \<in> set (fst (iteration_log env m h1)). \<not> is_train_log e"
  proof (intro allI)
    fix m h1
    show "\<forall>e \<in> set (fst (iteration_log env m h1)). \<not> is_train_log e"
      using assms set_iteration_log [of env m h1] by auto
  qed
  show "\<forall>s1. \<forall>e \<in> set (fst (save_phase env l s1)). \<not> is_train_log e"
  proof
    fix s1 show "\<forall>e \<in> set (fst (save_phase env l s1)). \<not> is_train_log e"
      using set_save_phase [of env l s1] by auto
  qed
  show "\<forall>s2. \<forall>e \<in> set (fst (test_phase env l s2)). \<not> is_train_log e"
  proof
    fix s2 show "\<forall>e \<in> set (fst (test_phase env l s2)). \<not> is_train_log e"
      using set_test_phase [of env l s2] by auto
  qed
qed

lemma prepare_no_train_log: "\<forall>e \<in> set (fst (prepare env c)). \<not> is_train_log e"
  by (rule prepare_events)
    (auto simp: build_events_def log_events_def data_events_def)

subsection \<open>The training log is written by the master ordinal only (lines 196-203)\<close>

text \<open>
  Claim C7. On a device that is not the master ordinal, one pass of the body of the inner loop
  writes nothing to the training log: its trace holds neither the record of line 198 nor the
  record of singular values of line 202. The same holds for the trace of the whole run.
\<close>

theorem non_master_writes_no_training_log:
  assumes "\<not> xm_is_master_ordinal env"
  shows "filter is_train_log (fst (step env l b s)) = []
         \<and> filter is_train_log (fst (run fuel env c)) = []"
proof -
  have "\<forall>e \<in> set (fst (run fuel env c)). \<not> is_train_log e"
  proof (rule run_events)
    show "\<forall>e \<in> set (fst (prepare env c)). \<not> is_train_log e"
      by (rule prepare_no_train_log)
    show "\<forall>tr l s0. prepare env c = (tr, Inr (l, s0))
            \<longrightarrow> (\<forall>b s. \<forall>e \<in> set (fst (step env l b s)). \<not> is_train_log e)"
      using step_no_train_log [OF assms] by blast
  qed simp_all
  then show ?thesis
    using step_no_train_log [OF assms, of l b s] by (simp add: filter_empty_conv)
qed

text \<open>
  The demonstration run on a device that is not the master ordinal: three training steps, no
  write to the training log; on the master ordinal the same run writes to it.
\<close>

theorem non_master_writes_no_training_log_witness:
  "\<not> xm_is_master_ordinal (demo_env\<lparr>xm_is_master_ordinal := False\<rparr>)
   \<and> filter is_train_log (fst (run 5 (demo_env\<lparr>xm_is_master_ordinal := False\<rparr>) demo_config)) = []
   \<and> train_calls (fst (run 5 (demo_env\<lparr>xm_is_master_ordinal := False\<rparr>) demo_config))
       = [4, 8, 12]
   \<and> length (filter is_train_log (fst (run 5 demo_env demo_config))) = 4"
proof -
  have a: "\<not> xm_is_master_ordinal (demo_env\<lparr>xm_is_master_ordinal := False\<rparr>)"
    by simp
  have b: "train_calls (fst (run 5 (demo_env\<lparr>xm_is_master_ordinal := False\<rparr>) demo_config))
           = [4, 8, 12]"
    by code_simp
  have c: "length (filter is_train_log (fst (run 5 demo_env demo_config))) = 4"
    by code_simp
  from non_master_writes_no_training_log [OF a] a b c show ?thesis
    by blast
qed

subsection \<open>Auxiliary facts: invariants of the loops, the records of singular values\<close>

lemma for_loop_invariant:
  assumes "\<forall>b h h'. I h \<and> snd (step env l b h) = Inr h' \<longrightarrow> I h'"
      and "\<forall>b h. I h \<longrightarrow> (\<forall>e \<in> set (fst (step env l b h)). Q e)"
      and "I h"
  shows "(\<forall>e \<in> set (fst (for_loop env l bs h)). Q e)
         \<and> (\<forall>h'. snd (for_loop env l bs h) = Inr h' \<longrightarrow> I h')"
  using assms(3)
proof (induction bs arbitrary: h)
  case Nil
  then show ?case by simp
next
  case (Cons b bs)
  from assms(2) Cons.prems have st: "\<forall>e \<in> set (fst (step env l b h)). Q e"
    by blast
  show ?case
  proof (cases "snd (step env l b h)")
    case (Inl x)
    then show ?thesis
      using st by (simp add: fst_for_loop_Cons snd_for_loop_Cons del: for_loop.simps)
  next
    case (Inr h1)
    from assms(1) Cons.prems Inr have i1: "I h1" by blast
    from Cons.IH [OF i1] Inr st i1 show ?thesis
      by (simp add: fst_for_loop_Cons snd_for_loop_Cons ball_Un del: for_loop.simps)
  qed
qed

lemma while_loop_invariant:
  assumes "\<forall>b h h'. I h \<and> snd (step env l b h) = Inr h' \<longrightarrow> I h'"
      and "\<forall>b h. I h \<longrightarrow> (\<forall>e \<in> set (fst (step env l b h)). Q e)"
      and "\<forall>p. Q (PerDeviceLoader p)" and "Q PbarClose"
      and "I h"
  shows "(\<forall>e \<in> set (fst (while_loop fuel env l pass h)). Q e)
         \<and> (\<forall>h'. snd (while_loop fuel env l pass h) = Some (Inr h') \<longrightarrow> I h')"
  using assms(5)
proof (induction fuel arbitrary: pass h)
  case 0
  then show ?case by simp
next
  case (Suc fuel)
  from for_loop_invariant [where I = I and Q = Q, OF assms(1) assms(2) Suc.prems] have
    f: "\<forall>e \<in> set (fst (for_loop env l (l_loader l pass) h)). Q e" and
    g: "\<forall>h'. snd (for_loop env l (l_loader l pass) h) = Inr h' \<longrightarrow> I h'"
    by blast+
  from assms(3) have pd: "Q (PerDeviceLoader pass)"
    by blast
  show ?case
  proof (cases "snd (for_loop env l (l_loader l pass) h)")
    case (Inl x)
    then show ?thesis
      using pd f Suc.prems
      by (auto simp add: fst_while_loop_Suc snd_while_loop_Suc simp del: while_loop.simps)
  next
    case (Inr h1)
    with g have "I h1" by blast
    from Suc.IH [OF this, where pass = "Suc pass"] Inr pd assms(4) f Suc.prems
    show ?thesis
      by (auto simp add: fst_while_loop_Suc snd_while_loop_Suc simp del: while_loop.simps)
  qed
qed

lemma sv_logs_append: "sv_logs (xs @ ys) = sv_logs xs @ sv_logs ys"
  by (simp add: sv_logs_def map_filter_append)

lemma sv_logs_Nil: "sv_logs [] = []"
  by (simp add: sv_logs_def List.map_filter_def)

lemma sv_logs_empty:
  assumes "\<forall>e \<in> set tr. sv_log_record e = None"
  shows "sv_logs tr = []"
  using assms by (simp add: sv_logs_def map_filter_empty_iff)

lemma sv_logs_train_call: "sv_logs (fst (train_call env l b h)) = []"
  using set_train_call [of env l b h] by (intro sv_logs_empty) auto

lemma sv_logs_save_phase: "sv_logs (fst (save_phase env l h)) = []"
  using set_save_phase [of env l h] by (intro sv_logs_empty) auto

lemma sv_logs_test_phase: "sv_logs (fst (test_phase env l h)) = []"
  using set_test_phase [of env l h] by (intro sv_logs_empty) auto

lemma sv_logs_iteration_log:
  "sv_logs (fst (iteration_log env m h)) =
     (if 0 < sv_log_interval (h_config h) \<and> itr (h_sd h) mod sv_log_interval (h_config h) = 0
         \<and> xm_is_master_ordinal env \<and> m ''itr'' = None
         \<and> (utils_get_SVs env (h_world h) Generator
             ++ utils_get_SVs env (h_world h) Discriminator) ''itr'' = None
      then [(itr (h_sd h),
             utils_get_SVs env (h_world h) Generator
             ++ utils_get_SVs env (h_world h) Discriminator)]
      else [])"
  by (simp add: sv_logs_def iteration_log_def List.map_filter_def Let_def)

lemma sv_logs_after_train:
  "sv_logs (fst (after_train env l m h)) = sv_logs (fst (iteration_log env m h))"
  by (simp add: fst_after_train sv_logs_append sv_logs_save_phase sv_logs_test_phase
      sv_logs_Nil split: sum.splits)

lemma sv_logs_step:
  "sv_logs (fst (step env l b h)) =
     (case snd (train_call env l b h) of
        Inl e \<Rightarrow> []
      | Inr (m, h1) \<Rightarrow>
          if 0 < sv_log_interval (h_config h1)
             \<and> itr (h_sd h1) mod sv_log_interval (h_config h1) = 0
             \<and> xm_is_master_ordinal env \<and> m ''itr'' = None
             \<and> (utils_get_SVs env (h_world h1) Generator
                 ++ utils_get_SVs env (h_world h1) Discriminator) ''itr'' = None
          then [(itr (h_sd h1),
                 utils_get_SVs env (h_world h1) Generator
                 ++ utils_get_SVs env (h_world h1) Discriminator)]
          else [])"
  by (simp add: fst_step sv_logs_append sv_logs_train_call sv_logs_after_train
      sv_logs_iteration_log sv_logs_Nil split: sum.splits prod.splits)

lemma sv_logs_prepare: "\<forall>e \<in> set (fst (prepare env c)). sv_log_record e = None"
  by (rule prepare_events) (auto simp: build_events_def log_events_def data_events_def)

lemma keeps_itr_demo: "keeps_itr demo_env l"
  by (simp add: keeps_itr_def demo_env_def)

lemma keeps_config_demo: "keeps_config demo_env l"
  by (simp add: keeps_config_def demo_env_def)

subsection \<open>Singular values (lines 201-203)\<close>

text \<open>
  Claim C8, as the code has it. In one pass of the body of the inner loop, once \<open>train\<close> has
  returned its metrics, the singular values are recorded exactly when \<open>sv_log_interval > 0\<close>,
  the iteration count is a multiple of \<open>sv_log_interval\<close>, the device is the master ordinal,
  and neither the metrics nor the singular values have a key \<open>'itr'\<close> (such a key clashes with
  the keyword \<open>itr\<close> of the two calls of \<open>train_log.log\<close>, which then raise \<open>TypeError\<close>);
  what is recorded is that iteration count with the singular values of the generator and of
  the discriminator. Nothing is recorded when \<open>train\<close> raised. In a run whose collaborators
  leave the configuration as it is when the loop starts, with \<open>sv_log_interval\<close> at 0 (or
  below), singular values are never recorded.
\<close>

theorem sv_log_gate:
  fixes env :: "('act, 'b, 'w) env"
  shows
  "sv_logs (fst (step env l b h)) =
     (case snd (train_call env l b h) of
        Inl e \<Rightarrow> []
      | Inr (m, h1) \<Rightarrow>
          if 0 < sv_log_interval (h_config h1)
             \<and> itr (h_sd h1) mod sv_log_interval (h_config h1) = 0
             \<and> xm_is_master_ordinal env \<and> m ''itr'' = None
             \<and> (utils_get_SVs env (h_world h1) Generator
                 ++ utils_get_SVs env (h_world h1) Discriminator) ''itr'' = None
          then [(itr (h_sd h1),
                 utils_get_SVs env (h_world h1) Generator
                 ++ utils_get_SVs env (h_world h1) Discriminator)]
          else [])
   \<and> ((\<forall>tr l0 h0. prepare env c = (tr, Inr (l0, h0))
          \<longrightarrow> keeps_config env l0 \<and> sv_log_interval (h_config h0) \<le> 0)
        \<longrightarrow> sv_logs (fst (run fuel env c)) = [])"
proof (intro conjI impI)
  show "sv_logs (fst (step env l b h)) =
     (case snd (train_call env l b h) of
        Inl e \<Rightarrow> []
      | Inr (m, h1) \<Rightarrow>
          if 0 < sv_log_interval (h_config h1)
             \<and> itr (h_sd h1) mod sv_log_interval (h_config h1) = 0
             \<and> xm_is_master_ordinal env \<and> m ''itr'' = None
             \<and> (utils_get_SVs env (h_world h1) Generator
                 ++ utils_get_SVs env (h_world h1) Discriminator) ''itr'' = None
          then [(itr (h_sd h1),
                 utils_get_SVs env (h_world h1) Generator
                 ++ utils_get_SVs env (h_world h1) Discriminator)]
          else [])"
    by (rule sv_logs_step)
next
  assume z: "\<forall>tr l0 h0. prepare env c = (tr, Inr (l0, h0))
          \<longrightarrow> keeps_config env l0 \<and> sv_log_interval (h_config h0) \<le> 0"
  have "\<forall>e \<in> set (fst (run fuel env c)). sv_log_record e = None"
  proof (cases "snd (prepare env c)")
    case (Inl e)
    then show ?thesis
      using sv_logs_prepare [of env c] by (simp add: fst_run)
  next
    case (Inr r)
    obtain l0 h0 where r: "r = (l0, h0)" by (cases r)
    have p: "prepare env c = (fst (prepare env c), Inr (l0, h0))"
      using Inr r by (cases "prepare env c") simp
    with z have k: "keeps_config env l0" and s0: "sv_log_interval (h_config h0) \<le> 0"
      by blast+
    have inv: "\<forall>b h h'. h_config h = h_config h0 \<and> snd (step env l0 b h) = Inr h'
                 \<longrightarrow> h_config h' = h_config h0"
      using step_config [OF k] by auto
    have st: "\<forall>b h. h_config h = h_config h0
                \<longrightarrow> (\<forall>e \<in> set (fst (step env l0 b h)). sv_log_record e = None)"
    proof (intro allI impI)
      fix b and h :: "('act, 'w) heap"
      assume i: "h_config h = h_config h0"
      have "sv_logs (fst (step env l0 b h)) = []"
      proof (cases "snd (train_call env l0 b h)")
        case (Inl e)
        then show ?thesis by (simp add: sv_logs_step)
      next
        case (Inr mh)
        obtain m h1 where mh: "mh = (m, h1)" by (cases mh)
        from keeps_config_train [OF k] Inr mh have "h_config h1 = h_config h" by blast
        with i s0 have "sv_log_interval (h_config h1) \<le> 0" by simp
        then show ?thesis by (simp add: sv_logs_step Inr mh)
      qed
      then show "\<forall>e \<in> set (fst (step env l0 b h)). sv_log_record e = None"
        by (simp add: sv_logs_def map_filter_empty_iff)
    qed
    from while_loop_invariant [OF inv st, where h = h0 and fuel = fuel and pass = 0]
    have "\<forall>e \<in> set (fst (while_loop fuel env l0 0 h0)). sv_log_record e = None"
      by simp
    then show ?thesis
      using sv_logs_prepare [of env c] by (simp add: fst_run Inr r ball_Un)
  qed
  then show "sv_logs (fst (run fuel env c)) = []"
    by (rule sv_logs_empty)
qed

text \<open>
  The demonstration run has \<open>sv_log_interval = 8\<close>: the step that takes the count from 4 to 8
  records the singular values, the steps that reach 4 and 12 do not; with
  \<open>sv_log_interval = 0\<close> the same run records none.
\<close>

theorem sv_log_gate_witness:
  "map fst (sv_logs (fst (step demo_env
       \<lparr>l_experiment_name = ''demo'', l_loader = (\<lambda>p. [0, 1]), l_G_batch_size = 2,
        l_G_ema = True\<rparr> 0
       \<lparr>h_world = (), h_config = demo_config,
        h_sd = (new_state_dict demo_config)\<lparr>itr := 4\<rparr>\<rparr>))) = [8]
   \<and> sv_logs (fst (run 5 demo_env (demo_config\<lparr>sv_log_interval := 0\<rparr>))) = []
   \<and> map fst (sv_logs (fst (run 5 demo_env demo_config))) = [8]"
proof -
  let ?l = "\<lparr>l_experiment_name = ''demo'', l_loader = (\<lambda>p. [0::nat, 1]), l_G_batch_size = 2,
        l_G_ema = True\<rparr>"
  let ?h = "\<lparr>h_world = (), h_config = demo_config,
        h_sd = (new_state_dict demo_config)\<lparr>itr := 4\<rparr>\<rparr>"
  let ?c = "demo_config\<lparr>sv_log_interval := 0\<rparr>"
  have b: "map fst (sv_logs (fst (run 5 demo_env demo_config))) = [8]"
    by code_simp
  obtain c' where c: "configure demo_env ?c = Inr c'" and nr: "\<not> resume c'"
    and sv: "sv_log_interval c' = 0"
    by (simp add: configure_def resolve_def update_config_def demo_env_def demo_config_def)
  have pre: "\<forall>tr l0 h0. prepare demo_env ?c = (tr, Inr (l0, h0))
          \<longrightarrow> keeps_config demo_env l0 \<and> sv_log_interval (h_config h0) \<le> 0"
  proof (intro allI impI)
    fix tr l0 h0
    assume "prepare demo_env ?c = (tr, Inr (l0, h0))"
    from prepare_fresh(1) [OF c nr this] have "h_config h0 = c'"
      by (simp add: new_heap_def)
    then show "keeps_config demo_env l0 \<and> sv_log_interval (h_config h0) \<le> 0"
      using keeps_config_demo sv by simp
  qed
  note t = sv_log_gate [of demo_env ?l 0 ?h ?c 5]
  from t pre have z: "sv_logs (fst (run 5 demo_env ?c)) = []"
    by blast
  from t have a: "map fst (sv_logs (fst (step demo_env ?l 0 ?h))) = [8]"
    by (simp add: snd_train_call advance_def demo_env_def demo_config_def new_state_dict_def)
  from a z b show ?thesis by blast
qed

text \<open>
  A pass on which the sentence of the specification fails: on the master ordinal, with
  \<open>sv_log_interval = 8\<close> and the count taken from 4 to 8, \<open>train\<close> returns metrics that have a
  key \<open>'itr'\<close>. The call of line 198 raises \<open>TypeError\<close> and the singular values are not
  recorded, although the three conditions of line 201 hold.
\<close>

theorem sv_log_gate_itr_key:
  "0 < sv_log_interval demo_config
   \<and> (4 + num_devices demo_config) mod sv_log_interval demo_config = 0
   \<and> xm_is_master_ordinal demo_env
   \<and> train_calls (fst (step
         (demo_env\<lparr>train_fns_GAN_training_function := (\<lambda>n h b. Inr ([''itr'' \<mapsto> 0], h))\<rparr>)
         \<lparr>l_experiment_name = ''demo'', l_loader = (\<lambda>p. [0, 1]), l_G_batch_size = 2,
          l_G_ema = True\<rparr> 0
         \<lparr>h_world = (), h_config = demo_config,
          h_sd = (new_state_dict demo_config)\<lparr>itr := 4\<rparr>\<rparr>)) = [8]
   \<and> snd (step
         (demo_env\<lparr>train_fns_GAN_training_function := (\<lambda>n h b. Inr ([''itr'' \<mapsto> 0], h))\<rparr>)
         \<lparr>l_experiment_name = ''demo'', l_loader = (\<lambda>p. [0, 1]), l_G_batch_size = 2,
          l_G_ema = True\<rparr> 0
         \<lparr>h_world = (), h_config = demo_config,
          h_sd = (new_state_dict demo_config)\<lparr>itr := 4\<rparr>\<rparr>) = Inl TypeError
   \<and> sv_logs (fst (step
         (demo_env\<lparr>train_fns_GAN_training_function := (\<lambda>n h b. Inr ([''itr'' \<mapsto> 0], h))\<rparr>)
         \<lparr>l_experiment_name = ''demo'', l_loader = (\<lambda>p. [0, 1]), l_G_batch_size = 2,
          l_G_ema = True\<rparr> 0
         \<lparr>h_world = (), h_config = demo_config,
          h_sd = (new_state_dict demo_config)\<lparr>itr := 4\<rparr>\<rparr>)) = []"
  by (simp add: train_calls_step sv_logs_step snd_step snd_after_train snd_train_call
      snd_iteration_log advance_def demo_env_def demo_config_def new_state_dict_def)

subsection \<open>Auxiliary facts: the sizes of the samples\<close>

lemma sample_sizes_empty:
  assumes "\<forall>e \<in> set tr. sample_size e = None"
  shows "sample_sizes tr = []"
  using assms by (simp add: sample_sizes_def map_filter_empty_iff)

lemma sample_size_step:
  "\<forall>e \<in> set (fst (step env l b h)). \<forall>n. sample_size e = Some n \<longrightarrow> n = l_G_batch_size l"
proof (rule step_events)
  show "\<forall>e \<in> set (fst (train_call env l b h)).
          \<forall>n. sample_size e = Some n \<longrightarrow> n = l_G_batch_size l"
    using set_train_call [of env l b h] by auto
  show "\<forall>m h1. \<forall>e \<in> set (fst (iteration_log env m h1)).
          \<forall>n. sample_size e = Some n \<longrightarrow> n = l_G_batch_size l"
  proof (intro allI)
    fix m h1
    show "\<forall>e \<in> set (fst (iteration_log env m h1)).
            \<forall>n. sample_size e = Some n \<longrightarrow> n = l_G_batch_size l"
      using set_iteration_log [of env m h1] by (auto split: if_splits)
  qed
  show "\<forall>s1. \<forall>e \<in> set (fst (save_phase env l s1)).
          \<forall>n. sample_size e = Some n \<longrightarrow> n = l_G_batch_size l"
  proof
    fix s1
    show "\<forall>e \<in> set (fst (save_phase env l s1)).
            \<forall>n. sample_size e = Some n \<longrightarrow> n = l_G_batch_size l"
      using set_save_phase [of env l s1] by auto
  qed
  show "\<forall>s2. \<forall>e \<in> set (fst (test_phase env l s2)).
          \<forall>n. sample_size e = Some n \<longrightarrow> n = l_G_batch_size l"
  proof
    fix s2
    show "\<forall>e \<in> set (fst (test_phase env l s2)).
            \<forall>n. sample_size e = Some n \<longrightarrow> n = l_G_batch_size l"
      using set_test_phase [of env l s2] by auto
  qed
qed

lemma sample_size_prepare_Inr:
  assumes "prepare env c = (tr, Inr (l, h))"
  shows "\<forall>e \<in> set (fst (prepare env c)).
           \<forall>n. sample_size e = Some n
             \<longrightarrow> n = max (G_batch_size (h_config h)) (batch_size (h_config h))"
proof (rule prepare_events)
  show "\<forall>tr' l' h'. prepare env c = (tr', Inr (l', h')) \<longrightarrow>
          (\<forall>e \<in> set (data_events (h_config h') (itr (h_sd h'))).
             \<forall>n. sample_size e = Some n
               \<longrightarrow> n = max (G_batch_size (h_config h)) (batch_size (h_config h)))"
    using assms by (auto simp: data_events_def)
qed (auto simp: build_events_def log_events_def)

lemma sample_size_prepare_Inl:
  assumes "snd (prepare env c) = Inl e"
  shows "\<forall>e \<in> set (fst (prepare env c)). sample_size e = None"
proof (rule prepare_events)
  show "\<forall>tr' l' h'. prepare env c = (tr', Inr (l', h')) \<longrightarrow>
          (\<forall>e \<in> set (data_events (h_config h') (itr (h_sd h'))). sample_size e = None)"
    using assms by auto
qed (auto simp: build_events_def log_events_def)

subsection \<open>The batch size of the closure sample (lines 160-164)\<close>

text \<open>
  Claim C10. The closure \<open>sample\<close> draws \<open>max (G_batch_size, batch_size)\<close> samples, these two
  entries being those of the configuration as line 160 reads it: that is the batch size with
  which the loop works after a successful setup, the size of the fixed sample drawn at line
  167, and the size of every sample that the run draws or hands on (to \<open>train\<close>,
  \<open>save_and_sample\<close> and \<open>test\<close>). A \<open>G_batch_size\<close> below \<open>batch_size\<close> therefore has no effect:
  the size is \<open>batch_size\<close>. A run whose setup fails draws no sample. The setup of a run that
  does not resume and passes the assertions of lines 61-62 succeeds, and line 160 then reads
  the configuration that lines 51-59 leave.
\<close>

theorem sample_batch_size:
  fixes env :: "('act, 'b, 'w) env"
  shows
  "(\<forall>tr l h. prepare env c = (tr, Inr (l, h))
      \<longrightarrow> l_G_batch_size l = max (G_batch_size (h_config h)) (batch_size (h_config h))
          \<and> max (G_batch_size (h_config h)) (batch_size (h_config h)) \<in> set (sample_sizes tr)
          \<and> (\<forall>n \<in> set (sample_sizes (fst (run fuel env c))).
                n = max (G_batch_size (h_config h)) (batch_size (h_config h))
                \<and> (G_batch_size (h_config h) \<le> batch_size (h_config h)
                     \<longrightarrow> n = batch_size (h_config h))))
   \<and> (isl (snd (prepare env c)) \<longrightarrow> sample_sizes (fst (run fuel env c)) = [])
   \<and> (\<forall>c'. configure env c = Inr c' \<and> \<not> resume c' \<and> num_devices c' \<noteq> 0
           \<and> save_every c' mod num_devices c' = 0 \<and> test_every c' mod num_devices c' = 0
        \<longrightarrow> (\<exists>tr l h. prepare env c = (tr, Inr (l, h)) \<and> h_config h = c'))"
proof (intro conjI allI impI ballI)
  fix c'
  assume "configure env c = Inr c' \<and> \<not> resume c' \<and> num_devices c' \<noteq> 0
           \<and> save_every c' mod num_devices c' = 0 \<and> test_every c' mod num_devices c' = 0"
  then have "configure env c = Inr c'" "\<not> resume c'" "num_devices c' \<noteq> 0"
    "save_every c' mod num_devices c' = 0" "test_every c' mod num_devices c' = 0"
    by simp_all
  note p = prepare_fresh_succeeds [OF this]
  have "h_config (new_heap env c') = c'" by (simp add: new_heap_def)
  with p show "\<exists>tr l h. prepare env c = (tr, Inr (l, h)) \<and> h_config h = c'"
    by blast
next
  fix tr l h
  assume p: "prepare env c = (tr, Inr (l, h))"
  let ?M = "max (G_batch_size (h_config h)) (batch_size (h_config h))"
  show lg: "l_G_batch_size l = ?M"
    by (rule prepare_locals(1) [OF p])
  from prepare_Inr [OF p] obtain c' tr1 where
    tr: "tr = build_events c' @ tr1
              @ log_events env (h_config h) (experiment_name_of env c')
              @ data_events (h_config h) (itr (h_sd h))"
    by blast
  have "PrepareZY ?M \<in> set tr"
    by (simp add: tr data_events_def)
  then show "?M \<in> set (sample_sizes tr)"
    by (force simp: sample_sizes_def set_map_filter)
  have all: "\<forall>e \<in> set (fst (run fuel env c)). \<forall>n. sample_size e = Some n \<longrightarrow> n = ?M"
  proof (rule run_events)
    show "\<forall>e \<in> set (fst (prepare env c)). \<forall>n. sample_size e = Some n \<longrightarrow> n = ?M"
      by (rule sample_size_prepare_Inr [OF p])
    show "\<forall>tr' l' h0. prepare env c = (tr', Inr (l', h0))
            \<longrightarrow> (\<forall>b h'. \<forall>e \<in> set (fst (step env l' b h')).
                   \<forall>n. sample_size e = Some n \<longrightarrow> n = ?M)"
    proof (intro allI impI)
      fix tr' l' h0 b and h' :: "('act, 'w) heap"
      assume "prepare env c = (tr', Inr (l', h0))"
      with p have "l' = l" by simp
      then show "\<forall>e \<in> set (fst (step env l' b h')).
              \<forall>n. sample_size e = Some n \<longrightarrow> n = ?M"
        using sample_size_step [of env l b h'] lg by simp
    qed
  qed simp_all
  fix n
  assume "n \<in> set (sample_sizes (fst (run fuel env c)))"
  then show n: "n = ?M"
    using all by (auto simp: sample_sizes_def set_map_filter)
  assume "G_batch_size (h_config h) \<le> batch_size (h_config h)"
  then show "n = batch_size (h_config h)"
    using n by simp
next
  assume "isl (snd (prepare env c))"
  then obtain e where e: "snd (prepare env c) = Inl e"
    by (cases "snd (prepare env c)") auto
  have "\<forall>e \<in> set (fst (run fuel env c)). sample_size e = None"
    using sample_size_prepare_Inl [OF e] by (simp add: fst_run e)
  then show "sample_sizes (fst (run fuel env c)) = []"
    by (rule sample_sizes_empty)
qed

text \<open>
  The demonstration configuration asks for \<open>G_batch_size = 1\<close> with \<open>batch_size = 2\<close>: every
  sample of the run has size 2.
\<close>

theorem sample_batch_size_witness:
  "\<not> isl (snd (prepare demo_env demo_config))
   \<and> G_batch_size (h_config (snd (projr (snd (prepare demo_env demo_config))))) = 1
   \<and> batch_size (h_config (snd (projr (snd (prepare demo_env demo_config))))) = 2
   \<and> l_G_batch_size (fst (projr (snd (prepare demo_env demo_config)))) = 2
   \<and> sample_sizes (fst (run 5 demo_env demo_config)) = [2, 2, 2, 2, 2, 2]
   \<and> set (sample_sizes (fst (run 5 demo_env demo_config))) \<subseteq> {2}"
proof -
  have ok: "\<not> isl (snd (prepare demo_env demo_config))" by code_simp
  then obtain tr l h where p: "prepare demo_env demo_config = (tr, Inr (l, h))"
    by (cases "prepare demo_env demo_config"; cases "snd (prepare demo_env demo_config)") auto
  obtain c' where c: "configure demo_env demo_config = Inr c'" and nr: "\<not> resume c'"
    and g: "G_batch_size c' = 1" "batch_size c' = 2"
    by (simp add: configure_def resolve_def update_config_def demo_env_def demo_config_def)
  from prepare_fresh(1) [OF c nr p] have hc: "h_config h = c'"
    by (simp add: new_heap_def)
  have b: "sample_sizes (fst (run 5 demo_env demo_config)) = [2, 2, 2, 2, 2, 2]"
    by code_simp
  from sample_batch_size [of demo_env demo_config 5] p
  have "l_G_batch_size l = max (G_batch_size (h_config h)) (batch_size (h_config h))
        \<and> (\<forall>n \<in> set (sample_sizes (fst (run 5 demo_env demo_config))).
              n = max (G_batch_size (h_config h)) (batch_size (h_config h)))"
    by blast
  then have "l_G_batch_size l = 2
        \<and> set (sample_sizes (fst (run 5 demo_env demo_config))) \<subseteq> {2}"
    by (auto simp: hc g)
  with ok b show ?thesis by (simp add: p hc g)
qed

subsection \<open>Auxiliary facts: the requests to the data loader\<close>

lemma loader_requests_append:
  "loader_requests (xs @ ys) = loader_requests xs @ loader_requests ys"
  by (simp add: loader_requests_def map_filter_append)

lemma loader_requests_Nil: "loader_requests [] = []"
  by (simp add: loader_requests_def List.map_filter_def)

lemma loader_requests_empty:
  assumes "\<forall>e \<in> set tr. loader_request e = None"
  shows "loader_requests tr = []"
  using assms by (simp add: loader_requests_def map_filter_empty_iff)

lemma loader_request_step: "\<forall>e \<in> set (fst (step env l b h)). loader_request e = None"
proof (rule step_events)
  show "\<forall>e \<in> set (fst (train_call env l b h)). loader_request e = None"
    using set_train_call [of env l b h] by auto
  show "\<forall>m h1. \<forall>e \<in> set (fst (iteration_log env m h1)). loader_request e = None"
  proof (intro allI)
    fix m h1
    show "\<forall>e \<in> set (fst (iteration_log env m h1)). loader_request e = None"
      using set_iteration_log [of env m h1] by (auto split: if_splits)
  qed
  show "\<forall>s1. \<forall>e \<in> set (fst (save_phase env l s1)). loader_request e = None"
  proof
    fix s1
    show "\<forall>e \<in> set (fst (save_phase env l s1)). loader_request e = None"
      using set_save_phase [of env l s1] by auto
  qed
  show "\<forall>s2. \<forall>e \<in> set (fst (test_phase env l s2)). loader_request e = None"
  proof
    fix s2
    show "\<forall>e \<in> set (fst (test_phase env l s2)). loader_request e = None"
      using set_test_phase [of env l s2] by auto
  qed
qed

lemma loader_requests_while_loop: "loader_requests (fst (while_loop fuel env l pass h)) = []"
proof (rule loader_requests_empty, rule while_loop_events)
  show "\<forall>b h. \<forall>e \<in> set (fst (step env l b h)). loader_request e = None"
    using loader_request_step [of env l] by blast
qed simp_all

lemma loader_requests_run:
  "loader_requests (fst (run fuel env c)) = loader_requests (fst (prepare env c))"
  by (simp add: fst_run loader_requests_append loader_requests_while_loop loader_requests_Nil
      split: sum.splits)

lemma loader_requests_build_events: "loader_requests (build_events c) = []"
  by (rule loader_requests_empty) (auto simp: build_events_def)

lemma loader_requests_restore: "loader_requests (fst (restore env n h)) = []"
  using set_restore [of env n h] by (intro loader_requests_empty) auto

lemma loader_requests_log_events: "loader_requests (log_events env c n) = []"
  by (rule loader_requests_empty) (auto simp: log_events_def)

lemma loader_requests_data_events:
  "loader_requests (data_events c i) = [batch_size c * num_D_steps c * num_D_accumulations c]"
  by (simp add: loader_requests_def List.map_filter_def data_events_def D_batch_size_def)

lemma loader_requests_prepare:
  "loader_requests (fst (prepare env c)) =
     (case snd (prepare env c) of
        Inl e \<Rightarrow> []
      | Inr (l, h) \<Rightarrow>
          [batch_size (h_config h) * num_D_steps (h_config h)
           * num_D_accumulations (h_config h)])"
  by (simp add: fst_prepare snd_prepare loader_requests_append loader_requests_Nil
      loader_requests_build_events loader_requests_restore loader_requests_log_events
      loader_requests_data_events split: sum.splits)

subsection \<open>The batch size of the data loader (lines 144-148)\<close>

text \<open>
  Claim C6. \<open>run\<close> asks \<open>utils.get_data_loaders\<close> for batches of
  \<open>batch_size * num_D_steps * num_D_accumulations\<close>, these three entries being those of the
  configuration as line 144 reads it: a run whose setup succeeds makes exactly one request, of
  that size, and the loader over which its loop iterates is the one built from that
  configuration with \<open>batch_size\<close> replaced by the product and with \<open>start_itr\<close> the iteration
  count of the state dictionary. A run whose setup fails makes no request. In particular a run
  that does not resume and passes the assertions of lines 61-62 asks once, for the product of
  the three entries of the configuration that lines 51-59 leave.
\<close>

theorem loader_batch_size:
  "(\<forall>tr l h. prepare env c = (tr, Inr (l, h))
      \<longrightarrow> loader_requests (fst (run fuel env c))
            = [batch_size (h_config h) * num_D_steps (h_config h)
               * num_D_accumulations (h_config h)]
          \<and> l_loader l
            = utils_get_data_loaders env
                ((h_config h)\<lparr>batch_size := batch_size (h_config h) * num_D_steps (h_config h)
                                              * num_D_accumulations (h_config h)\<rparr>)
                (itr (h_sd h)))
   \<and> (isl (snd (prepare env c)) \<longrightarrow> loader_requests (fst (run fuel env c)) = [])
   \<and> (\<forall>c'. configure env c = Inr c' \<and> \<not> resume c' \<and> num_devices c' \<noteq> 0
           \<and> save_every c' mod num_devices c' = 0 \<and> test_every c' mod num_devices c' = 0
        \<longrightarrow> loader_requests (fst (run fuel env c))
              = [batch_size c' * num_D_steps c' * num_D_accumulations c'])"
proof (intro conjI allI impI)
  fix c'
  assume "configure env c = Inr c' \<and> \<not> resume c' \<and> num_devices c' \<noteq> 0
           \<and> save_every c' mod num_devices c' = 0 \<and> test_every c' mod num_devices c' = 0"
  then have "configure env c = Inr c'" "\<not> resume c'" "num_devices c' \<noteq> 0"
    "save_every c' mod num_devices c' = 0" "test_every c' mod num_devices c' = 0"
    by simp_all
  note p = prepare_fresh_succeeds [OF this]
  from p loader_requests_prepare [of env c]
  have "loader_requests (fst (prepare env c))
        = [batch_size c' * num_D_steps c' * num_D_accumulations c']"
    by (simp add: new_heap_def)
  then show "loader_requests (fst (run fuel env c))
          = [batch_size c' * num_D_steps c' * num_D_accumulations c']"
    by (simp only: loader_requests_run)
next
  fix tr l h
  assume p: "prepare env c = (tr, Inr (l, h))"
  from p loader_requests_prepare [of env c]
  have "loader_requests (fst (prepare env c))
        = [batch_size (h_config h) * num_D_steps (h_config h)
           * num_D_accumulations (h_config h)]"
    by simp
  then show "loader_requests (fst (run fuel env c))
          = [batch_size (h_config h) * num_D_steps (h_config h)
             * num_D_accumulations (h_config h)]"
    by (simp only: loader_requests_run)
  show "l_loader l
            = utils_get_data_loaders env
                ((h_config h)\<lparr>batch_size := batch_size (h_config h) * num_D_steps (h_config h)
                                              * num_D_accumulations (h_config h)\<rparr>)
                (itr (h_sd h))"
    using prepare_locals(2) [OF p] by (simp add: D_batch_size_def)
next
  assume "isl (snd (prepare env c))"
  then obtain e where e: "snd (prepare env c) = Inl e"
    by (cases "snd (prepare env c)") auto
  show "loader_requests (fst (run fuel env c)) = []"
    by (simp add: loader_requests_run loader_requests_prepare e)
qed

text \<open>
  The demonstration configuration has \<open>batch_size = 2\<close>, \<open>num_D_steps = 3\<close> and
  \<open>num_D_accumulations = 5\<close>: the run asks once, for batches of 30. A run that stops at the
  assertion of line 61 asks for none.
\<close>

theorem loader_batch_size_witness:
  "\<not> isl (snd (prepare demo_env demo_config))
   \<and> batch_size (h_config (snd (projr (snd (prepare demo_env demo_config))))) = 2
   \<and> num_D_steps (h_config (snd (projr (snd (prepare demo_env demo_config))))) = 3
   \<and> num_D_accumulations (h_config (snd (projr (snd (prepare demo_env demo_config))))) = 5
   \<and> loader_requests (fst (run 5 demo_env demo_config)) = [30]
   \<and> isl (snd (prepare demo_env (demo_config\<lparr>save_every := 6\<rparr>)))
   \<and> loader_requests (fst (run 5 demo_env (demo_config\<lparr>save_every := 6\<rparr>))) = []"
proof -
  have ok: "\<not> isl (snd (prepare demo_env demo_config))" by code_simp
  then obtain tr l h where p: "prepare demo_env demo_config = (tr, Inr (l, h))"
    by (cases "prepare demo_env demo_config"; cases "snd (prepare demo_env demo_config)") auto
  obtain c' where c: "configure demo_env demo_config = Inr c'" and nr: "\<not> resume c'"
    and g: "batch_size c' = 2" "num_D_steps c' = 3" "num_D_accumulations c' = 5"
    by (simp add: configure_def resolve_def update_config_def demo_env_def demo_config_def)
  from prepare_fresh(1) [OF c nr p] have hc: "h_config h = c'"
    by (simp add: new_heap_def)
  have f: "isl (snd (prepare demo_env (demo_config\<lparr>save_every := 6\<rparr>)))" by code_simp
  note t = loader_batch_size [of demo_env demo_config 5]
  note t' = loader_batch_size [of demo_env "demo_config\<lparr>save_every := 6\<rparr>" 5]
  from t p have "loader_requests (fst (run 5 demo_env demo_config))
        = [batch_size (h_config h) * num_D_steps (h_config h) * num_D_accumulations (h_config h)]"
    by blast
  then have a: "loader_requests (fst (run 5 demo_env demo_config)) = [30]"
    by (simp add: hc g)
  from t' f have b: "loader_requests (fst (run 5 demo_env (demo_config\<lparr>save_every := 6\<rparr>))) = []"
    by blast
  from ok a f b show ?thesis by (simp add: p hc g)
qed

subsection \<open>Auxiliary facts: the state that train receives\<close>

lemma train_calls_prepare: "train_calls (fst (prepare env c)) = []"
proof -
  have "\<forall>e \<in> set (fst (prepare env c)). train_call_itr e = None"
    by (rule prepare_events) (auto simp: build_events_def log_events_def data_events_def)
  then show ?thesis
    by (rule train_calls_empty)
qed

lemma train_calls_run:
  assumes "prepare env c = (tr0, Inr (l, h0))"
  shows "train_calls (fst (run fuel env c)) = train_calls (fst (while_loop fuel env l 0 h0))"
  using train_calls_prepare [of env c] assms
  by (simp add: fst_run train_calls_append)

lemma step_train:
  "step env l b h =
     (if ema (h_config h) \<and> \<not> l_G_ema l
      then (fst (train_call env l b h), Inl AttributeError)
      else and_then
             (fst (train_call env l b h),
              train_fns_GAN_training_function env (l_G_batch_size l) (advance h) b)
             (\<lambda>(m, h1). after_train env l m h1))"
proof -
  have "train_call env l b h = (fst (train_call env l b h), snd (train_call env l b h))"
    by simp
  then have "step env l b h =
      and_then (fst (train_call env l b h), snd (train_call env l b h))
        (\<lambda>(m, h1). after_train env l m h1)"
    by (simp only: step_def)
  then show ?thesis
    by (simp add: snd_train_call and_then_def)
qed

lemma step_train_only_advanced:
  assumes "tf (l_G_batch_size l) (advance h) b
           = train_fns_GAN_training_function env (l_G_batch_size l) (advance h) b"
  shows "step (env\<lparr>train_fns_GAN_training_function := tf\<rparr>) l b h = step env l b h"
proof -
  have il: "iteration_log (env\<lparr>train_fns_GAN_training_function := tf\<rparr>) m h1
            = iteration_log env m h1" for m h1
    by (simp add: iteration_log_def Let_def cong: if_cong)
  have sp: "save_phase (env\<lparr>train_fns_GAN_training_function := tf\<rparr>) l h1
            = save_phase env l h1" for h1
    by (simp add: save_phase_def Let_def cong: if_cong sum.case_cong)
  have tp: "test_phase (env\<lparr>train_fns_GAN_training_function := tf\<rparr>) l
            = test_phase env l"
    by (rule ext) (simp add: test_phase_def Let_def cong: if_cong sum.case_cong)
  have a: "after_train (env\<lparr>train_fns_GAN_training_function := tf\<rparr>) l m h1
           = after_train env l m h1" for m h1
    by (simp only: after_train_def il sp tp)
  have t: "train_call (env\<lparr>train_fns_GAN_training_function := tf\<rparr>) l b h
           = train_call env l b h"
    using assms by (simp add: train_call_def Let_def)
  show ?thesis
    by (simp add: step_def a t)
qed

subsection \<open>The counter is advanced before the training step (lines 178-194)\<close>

text \<open>
  Claim C2. One pass of the body of the inner loop is: the call of \<open>train\<close> on the shared
  objects in which \<open>state_dict['itr']\<close> has already been increased by \<open>num_devices\<close> (and nothing
  else has changed), followed, if \<open>train\<close> returns, by the rest of the body on what \<open>train\<close>
  returned; the only pass that does not reach \<open>train\<close> is the one in which \<open>G_ema.train()\<close>
  raises. So \<open>train\<close> is called at most once per pass, it finds the count at the top of the pass
  plus \<open>num_devices\<close>, and the pass depends on \<open>train\<close> only through what \<open>train\<close> answers to
  that count: replacing \<open>train\<close> by any function that gives the same answer on the advanced
  state dictionary leaves the pass unchanged. Over a whole run whose collaborators assign neither to the count nor to the
  configuration, the calls of \<open>train\<close> find \<open>itr0 + num_devices\<close>, \<open>itr0 + 2 num_devices\<close>, ...,
  where \<open>itr0\<close> is the count with which the loop starts: never a count that has not been
  advanced for the step.
\<close>

theorem itr_advanced_before_train:
  fixes env :: "('act, 'b, 'w) env"
  shows
  "step env l b h =
     (if ema (h_config h) \<and> \<not> l_G_ema l
      then (fst (train_call env l b h), Inl AttributeError)
      else and_then
             (fst (train_call env l b h),
              train_fns_GAN_training_function env (l_G_batch_size l)
                (h\<lparr>h_sd := (h_sd h)\<lparr>itr := itr (h_sd h) + num_devices (h_config h)\<rparr>\<rparr>) b)
             (\<lambda>(m, h1). after_train env l m h1))
   \<and> (\<forall>tf. tf (l_G_batch_size l)
               (h\<lparr>h_sd := (h_sd h)\<lparr>itr := itr (h_sd h) + num_devices (h_config h)\<rparr>\<rparr>) b
             = train_fns_GAN_training_function env (l_G_batch_size l)
                 (h\<lparr>h_sd := (h_sd h)\<lparr>itr := itr (h_sd h) + num_devices (h_config h)\<rparr>\<rparr>) b
           \<longrightarrow> step (env\<lparr>train_fns_GAN_training_function := tf\<rparr>) l b h = step env l b h)
   \<and> train_calls (fst (step env l b h)) =
       (if ema (h_config h) \<and> \<not> l_G_ema l then []
        else [itr (h_sd h) + num_devices (h_config h)])
   \<and> (\<forall>tr0 l0 h0. prepare env c = (tr0, Inr (l0, h0)) \<and> keeps_itr env l0 \<and> keeps_config env l0
        \<longrightarrow> (\<exists>n. train_calls (fst (run fuel env c))
                   = progression (itr (h_sd h0)) (num_devices (h_config h0)) n))"
proof (intro conjI allI impI)
  fix tf
  assume "tf (l_G_batch_size l)
               (h\<lparr>h_sd := (h_sd h)\<lparr>itr := itr (h_sd h) + num_devices (h_config h)\<rparr>\<rparr>) b
             = train_fns_GAN_training_function env (l_G_batch_size l)
                 (h\<lparr>h_sd := (h_sd h)\<lparr>itr := itr (h_sd h) + num_devices (h_config h)\<rparr>\<rparr>) b"
  then have "tf (l_G_batch_size l) (advance h) b
           = train_fns_GAN_training_function env (l_G_batch_size l) (advance h) b"
    by (simp only: advance_def)
  then show "step (env\<lparr>train_fns_GAN_training_function := tf\<rparr>) l b h = step env l b h"
    by (rule step_train_only_advanced)
next
  show "step env l b h =
     (if ema (h_config h) \<and> \<not> l_G_ema l
      then (fst (train_call env l b h), Inl AttributeError)
      else and_then
             (fst (train_call env l b h),
              train_fns_GAN_training_function env (l_G_batch_size l)
                (h\<lparr>h_sd := (h_sd h)\<lparr>itr := itr (h_sd h) + num_devices (h_config h)\<rparr>\<rparr>) b)
             (\<lambda>(m, h1). after_train env l m h1))"
    using step_train [of env l b h] by (simp only: advance_def)
  show "train_calls (fst (step env l b h)) =
       (if ema (h_config h) \<and> \<not> l_G_ema l then []
        else [itr (h_sd h) + num_devices (h_config h)])"
    by (rule train_calls_step)
next
  fix tr0 l0 h0
  assume a: "prepare env c = (tr0, Inr (l0, h0)) \<and> keeps_itr env l0 \<and> keeps_config env l0"
  then have p: "prepare env c = (tr0, Inr (l0, h0))" and k: "keeps_itr env l0"
    and kc: "keeps_config env l0"
    by simp_all
  from while_loop_calls [OF k kc, where fuel = fuel and pass = 0 and h = h0] obtain n where
    "train_calls (fst (while_loop fuel env l0 0 h0))
       = progression (itr (h_sd h0)) (num_devices (h_config h0)) n"
    by blast
  then have "train_calls (fst (run fuel env c))
             = progression (itr (h_sd h0)) (num_devices (h_config h0)) n"
    by (simp add: train_calls_run [OF p])
  then show "\<exists>n. train_calls (fst (run fuel env c))
                   = progression (itr (h_sd h0)) (num_devices (h_config h0)) n" ..
qed

text \<open>
  In the demonstration run \<open>train\<close> reports, as the metric \<open>seen\<close>, the count it finds in the
  state dictionary, and the loop writes the metrics to the training log. The pass that starts
  at count 0 with 4 devices logs \<open>seen = 4\<close>; the run calls \<open>train\<close> under 4, 8 and 12 and logs
  \<open>seen = 4\<close>, \<open>8\<close> and \<open>12\<close>.
\<close>

theorem itr_advanced_before_train_witness:
  "map (\<lambda>(i, m). m ''seen'')
     (train_logs (fst (step demo_env
        \<lparr>l_experiment_name = ''demo'', l_loader = (\<lambda>p. [0, 1]), l_G_batch_size = 2,
         l_G_ema = True\<rparr> 0
        \<lparr>h_world = (), h_config = demo_config, h_sd = new_state_dict demo_config\<rparr>)))
     = [Some 4]
   \<and> \<not> isl (snd (prepare demo_env demo_config))
   \<and> keeps_itr demo_env (fst (projr (snd (prepare demo_env demo_config))))
   \<and> keeps_config demo_env (fst (projr (snd (prepare demo_env demo_config))))
   \<and> train_calls (fst (run 5 demo_env demo_config)) = [4, 8, 12]
   \<and> map (\<lambda>(i, m). m ''seen'') (train_logs (fst (run 5 demo_env demo_config)))
       = [Some 4, Some 8, Some 12]
   \<and> (\<exists>n. train_calls (fst (run 5 demo_env demo_config)) = progression 0 4 n)"
proof -
  let ?l = "\<lparr>l_experiment_name = ''demo'', l_loader = (\<lambda>p. [0::nat, 1]), l_G_batch_size = 2,
         l_G_ema = True\<rparr>"
  let ?h = "\<lparr>h_world = (), h_config = demo_config, h_sd = new_state_dict demo_config\<rparr>"
  have ok: "\<not> isl (snd (prepare demo_env demo_config))" by code_simp
  then obtain tr l h where p: "prepare demo_env demo_config = (tr, Inr (l, h))"
    by (cases "prepare demo_env demo_config"; cases "snd (prepare demo_env demo_config)") auto
  obtain c' where c: "configure demo_env demo_config = Inr c'" and nr: "\<not> resume c'"
    and nd: "num_devices c' = 4"
    by (simp add: configure_def resolve_def update_config_def demo_env_def demo_config_def)
  from prepare_fresh(1) [OF c nr p] have hc: "h_config h = c'" and i0: "itr (h_sd h) = 0"
    by (simp_all add: new_heap_def new_state_dict_def)
  have b: "train_calls (fst (run 5 demo_env demo_config)) = [4, 8, 12]"
    by code_simp
  have b': "map (\<lambda>(i, m). m ''seen'') (train_logs (fst (run 5 demo_env demo_config)))
            = [Some 4, Some 8, Some 12]"
    by code_simp
  note t = itr_advanced_before_train [of demo_env ?l 0 ?h demo_config 5]
  from t have "step demo_env ?l 0 ?h =
      and_then (fst (train_call demo_env ?l 0 ?h),
                train_fns_GAN_training_function demo_env (l_G_batch_size ?l)
                  (?h\<lparr>h_sd := (h_sd ?h)\<lparr>itr := itr (h_sd ?h) + num_devices (h_config ?h)\<rparr>\<rparr>) 0)
        (\<lambda>(m, h1). after_train demo_env ?l m h1)"
    by simp
  then have a: "map (\<lambda>(i, m). m ''seen'') (train_logs (fst (step demo_env ?l 0 ?h))) = [Some 4]"
    by (simp add: fst_and_then fst_train_call fst_after_train iteration_log_def save_phase_def
        test_phase_def py_mod_def Let_def train_logs_def List.map_filter_def
        demo_env_def demo_config_def new_state_dict_def)
  from t p keeps_itr_demo [of l] keeps_config_demo [of l]
  have "\<exists>n. train_calls (fst (run 5 demo_env demo_config))
              = progression (itr (h_sd h)) (num_devices (h_config h)) n"
    by blast
  then have d: "\<exists>n. train_calls (fst (run 5 demo_env demo_config)) = progression 0 4 n"
    by (simp add: i0 hc nd)
  from a ok keeps_itr_demo keeps_config_demo b b' d show ?thesis by blast
qed

subsection \<open>Auxiliary facts: the bound of the loop\<close>

lemma for_loop_bound:
  assumes "keeps_itr env l" and "keeps_config env l"
      and "0 \<le> num_devices (h_config h)"
      and "itr (h_sd h) < total_steps (h_config h)"
      and "snd (for_loop env l bs h) = Inr h'"
  shows "itr (h_sd h') < total_steps (h_config h) + num_devices (h_config h)
         \<and> h_config h' = h_config h"
  using assms(3-5)
proof (induction bs arbitrary: h)
  case Nil
  then show ?case by simp
next
  case (Cons b bs)
  from Cons.prems(3) obtain h1 where s: "snd (step env l b h) = Inr h1"
    by (cases "snd (step env l b h)") (simp_all add: snd_for_loop_Cons del: for_loop.simps)
  have i1: "itr (h_sd h1) = itr (h_sd h) + num_devices (h_config h)"
    by (rule step_itr [OF assms(1) s])
  have c1: "h_config h1 = h_config h"
    by (rule step_config [OF assms(2) s])
  show ?case
  proof (cases "total_steps (h_config h1) \<le> itr (h_sd h1)")
    case True
    with Cons.prems(3) s have "h' = h1"
      by (simp add: snd_for_loop_Cons del: for_loop.simps)
    then show ?thesis
      using i1 c1 Cons.prems(2) by simp
  next
    case False
    with Cons.prems(3) s have r: "snd (for_loop env l bs h1) = Inr h'"
      by (simp add: snd_for_loop_Cons del: for_loop.simps)
    from False have lt: "itr (h_sd h1) < total_steps (h_config h1)" by simp
    from Cons.prems(1) have nn: "0 \<le> num_devices (h_config h1)" by (simp add: c1)
    from Cons.IH [OF nn lt r] show ?thesis by (simp add: c1)
  qed
qed

lemma while_loop_bound:
  assumes "keeps_itr env l" and "keeps_config env l"
      and "0 \<le> num_devices (h_config h)"
      and "itr (h_sd h) < total_steps (h_config h) + num_devices (h_config h)"
      and "snd (while_loop fuel env l pass h) = Some (Inr h')"
  shows "total_steps (h_config h) \<le> itr (h_sd h')
         \<and> itr (h_sd h') < total_steps (h_config h) + num_devices (h_config h)
         \<and> h_config h' = h_config h"
  using assms(3-5)
proof (induction fuel arbitrary: pass h)
  case 0
  then show ?case by (simp split: if_splits)
next
  case (Suc fuel)
  show ?case
  proof (cases "itr (h_sd h) < total_steps (h_config h)")
    case False
    with Suc.prems(3) have "h' = h"
      by (simp add: snd_while_loop_Suc del: while_loop.simps)
    then show ?thesis using False Suc.prems(2) by simp
  next
    case True
    with Suc.prems(3) obtain h1 where
      f: "snd (for_loop env l (l_loader l pass) h) = Inr h1" and
      w: "snd (while_loop fuel env l (Suc pass) h1) = Some (Inr h')"
      by (cases "snd (for_loop env l (l_loader l pass) h)")
        (simp_all add: snd_while_loop_Suc del: while_loop.simps)
    from for_loop_bound [OF assms(1,2) Suc.prems(1) True f] have
      b1: "itr (h_sd h1) < total_steps (h_config h) + num_devices (h_config h)" and
      c1: "h_config h1 = h_config h"
      by simp_all
    from Suc.prems(1) have nn: "0 \<le> num_devices (h_config h1)" by (simp add: c1)
    from b1 have lt: "itr (h_sd h1) < total_steps (h_config h1) + num_devices (h_config h1)"
      by (simp add: c1)
    from Suc.IH [OF nn lt w] show ?thesis by (simp add: c1)
  qed
qed

lemma least_multiple:
  fixes d t x m :: int
  assumes "0 < d" and "d dvd x" and "x < t + d" and "d dvd m" and "t \<le> m"
  shows "x \<le> m"
proof (rule ccontr)
  assume "\<not> x \<le> m"
  then have pos: "0 < x - m" by simp
  from assms(2,4) have "d dvd x - m" by (rule dvd_diff)
  from zdvd_imp_le [OF this pos] have "d \<le> x - m" .
  with assms(3,5) show False by simp
qed

subsection \<open>Auxiliary facts: the termination of the loop\<close>

lemma step_returns:
  assumes "always_returns env l" and "keeps_config env l"
      and "save_every (h_config h) \<noteq> 0" and "test_every (h_config h) \<noteq> 0"
      and "ema (h_config h) \<longrightarrow> l_G_ema l"
  shows "\<exists>h'. snd (step env l b h) = Inr h'"
proof -
  from assms(1) obtain m h1 where
    t: "train_fns_GAN_training_function env (l_G_batch_size l) (advance h) b = Inr (m, h1)"
    and m: "m ''itr'' = None"
    unfolding always_returns_def by blast
  from assms(5) t have tc: "snd (train_call env l b h) = Inr (m, h1)"
    by (auto simp: snd_train_call)
  have c1: "h_config h1 = h_config h"
    by (rule keeps_config_train [OF assms(2) tc])
  from assms(1) have sv: "(utils_get_SVs env (h_world h1) Generator
                  ++ utils_get_SVs env (h_world h1) Discriminator) ''itr'' = None"
    unfolding always_returns_def by blast
  have il: "snd (iteration_log env m h1) = Inr ()"
    by (simp add: snd_iteration_log m sv)
  from assms(1) obtain hs where
    "train_fns_save_and_sample env (l_G_batch_size l) (l_experiment_name l) h1 = Inr hs"
    unfolding always_returns_def by blast
  with assms(3,5) have "\<exists>h2. snd (save_phase env l h1) = Inr h2"
    by (auto simp: snd_save_phase c1)
  then obtain h2 where sp: "snd (save_phase env l h1) = Inr h2" ..
  have c2: "h_config h2 = h_config h"
    using keeps_config_save [OF assms(2) sp] c1 by simp
  from assms(1) obtain ht where
    "train_fns_test env (l_G_batch_size l) (l_experiment_name l) h2 = Inr ht"
    unfolding always_returns_def by blast
  with assms(4) have "\<exists>h3. snd (test_phase env l h2) = Inr h3"
    by (auto simp: snd_test_phase c2)
  then obtain h3 where tp: "snd (test_phase env l h2) = Inr h3" ..
  have "snd (step env l b h) = Inr h3"
    by (simp add: snd_step snd_after_train tc il sp tp)
  then show ?thesis ..
qed

lemma for_loop_returns:
  assumes "always_returns env l" and "keeps_config env l"
      and "save_every (h_config h) \<noteq> 0" and "test_every (h_config h) \<noteq> 0"
      and "ema (h_config h) \<longrightarrow> l_G_ema l"
  shows "\<exists>h'. snd (for_loop env l bs h) = Inr h'"
  using assms(3-5)
proof (induction bs arbitrary: h)
  case Nil
  show ?case by simp
next
  case (Cons b bs)
  from step_returns [OF assms(1,2) Cons.prems] obtain h1 where
    s: "snd (step env l b h) = Inr h1" by blast
  have c1: "h_config h1 = h_config h"
    by (rule step_config [OF assms(2) s])
  show ?case
  proof (cases "total_steps (h_config h1) \<le> itr (h_sd h1)")
    case True
    then show ?thesis
      by (simp add: snd_for_loop_Cons s del: for_loop.simps)
  next
    case False
    from Cons.IH [of h1] Cons.prems obtain h' where "snd (for_loop env l bs h1) = Inr h'"
      by (auto simp: c1)
    with False show ?thesis
      by (simp add: snd_for_loop_Cons s del: for_loop.simps)
  qed
qed

lemma while_loop_returns:
  assumes "always_returns env l" and "keeps_itr env l" and "keeps_config env l"
      and "\<forall>pass. l_loader l pass \<noteq> []"
      and "0 < num_devices (h_config h)"
      and "save_every (h_config h) \<noteq> 0" and "test_every (h_config h) \<noteq> 0"
      and "ema (h_config h) \<longrightarrow> l_G_ema l"
      and "nat (total_steps (h_config h) - itr (h_sd h)) \<le> fuel"
  shows "\<exists>h'. snd (while_loop fuel env l pass h) = Some (Inr h')"
  using assms(5-9)
proof (induction fuel arbitrary: pass h)
  case 0
  then show ?case by simp
next
  case (Suc fuel)
  show ?case
  proof (cases "itr (h_sd h) < total_steps (h_config h)")
    case False
    then show ?thesis
      by (simp add: snd_while_loop_Suc del: while_loop.simps)
  next
    case True
    let ?bs = "l_loader l pass"
    from for_loop_returns [OF assms(1,3) Suc.prems(2-4), of ?bs] obtain h1 where
      f: "snd (for_loop env l ?bs h) = Inr h1" by blast
    from assms(4) have ne: "?bs \<noteq> []" by blast
    from for_loop_calls [OF assms(2,3), where bs = ?bs and h = h] f ne obtain n where
      i1: "itr (h_sd h1) = itr (h_sd h) + int n * num_devices (h_config h)" and
      c1: "h_config h1 = h_config h" and n: "0 < n"
      by blast
    from n Suc.prems(1) have "num_devices (h_config h) \<le> int n * num_devices (h_config h)"
      by (simp add: mult_le_cancel_right1)
    with i1 Suc.prems(1) have "itr (h_sd h) < itr (h_sd h1)" by simp
    with Suc.prems(5) True have
      "nat (total_steps (h_config h1) - itr (h_sd h1)) \<le> fuel"
      by (simp add: c1)
    from Suc.IH [of h1 "Suc pass"] this Suc.prems(1-4) obtain h' where
      "snd (while_loop fuel env l (Suc pass) h1) = Some (Inr h')"
      by (auto simp: c1)
    with True f show ?thesis
      by (simp add: snd_while_loop_Suc del: while_loop.simps)
  qed
qed

subsection \<open>Auxiliary facts: the values of the count in a trace\<close>
















subsection \<open>The iteration count only advances, by the number of devices (line 182)\<close>




subsection \<open>Auxiliary facts: the end of a run\<close>

lemma run_Inr:
  assumes "prepare env c = (tr0, Inr (l, h0))" and "run fuel env c = (tr, Some (Inr h))"
  shows "snd (while_loop fuel env l 0 h0) = Some (Inr h)"
    and "train_calls tr = train_calls (fst (while_loop fuel env l 0 h0))"
proof -
  from assms(2) have "snd (run fuel env c) = Some (Inr h)" by simp
  then show "snd (while_loop fuel env l 0 h0) = Some (Inr h)"
    by (simp only: snd_run_Inr [OF assms(1)])
  from assms(2) have "tr = fst (run fuel env c)" by simp
  then show "train_calls tr = train_calls (fst (while_loop fuel env l 0 h0))"
    by (simp only: train_calls_run [OF assms(1)])
qed

lemma twelve: "(4::int) dvd x \<Longrightarrow> 10 \<le> x \<Longrightarrow> x < 14 \<Longrightarrow> x = 12"
  by presburger

subsection \<open>Where the loop ends (lines 175-230)\<close>

text \<open>
  Claim C1, as the code has it. Take a run whose setup succeeds, with \<open>total_steps > 0\<close> and
  \<open>num_devices > 0\<close> in the configuration as the loop reads it, whose collaborators assign
  neither to the iteration count nor to the configuration, and whose loop starts from a count
  that is a multiple of \<open>num_devices\<close> and below \<open>total_steps + num_devices\<close> (a fresh run
  starts from 0; a resumed run starts from the count of the checkpoint). When its loop
  terminates normally, the count is the least multiple of \<open>num_devices\<close> that is at least
  \<open>total_steps\<close>, and \<open>train\<close> has been called once for every \<open>num_devices\<close> between the
  starting count and the final one; with \<open>total_steps = 10\<close>, \<open>num_devices = 4\<close> and a start
  from 0 the count ends at 12 after exactly 3 calls. And the loop does terminate normally when
  moreover no collaborator raises, the two intervals are not 0, \<open>G_ema\<close> exists if \<open>ema\<close> is
  set, and every pass of the loader yields a batch.
\<close>

theorem loop_ends_at_least_multiple:
  fixes env :: "('act, 'b, 'w) env"
  assumes "prepare env c = (tr0, Inr (l, h0))"
      and "keeps_itr env l" and "keeps_config env l"
      and "0 < total_steps (h_config h0)" and "0 < num_devices (h_config h0)"
      and "num_devices (h_config h0) dvd itr (h_sd h0)"
      and "itr (h_sd h0) < total_steps (h_config h0) + num_devices (h_config h0)"
  shows "(\<forall>fuel tr h. run fuel env c = (tr, Some (Inr h)) \<longrightarrow>
            num_devices (h_config h0) dvd itr (h_sd h)
            \<and> total_steps (h_config h0) \<le> itr (h_sd h)
            \<and> (\<forall>m. num_devices (h_config h0) dvd m \<and> total_steps (h_config h0) \<le> m
                  \<longrightarrow> itr (h_sd h) \<le> m)
            \<and> int (length (train_calls tr)) * num_devices (h_config h0)
                = itr (h_sd h) - itr (h_sd h0)
            \<and> (total_steps (h_config h0) = 10 \<and> num_devices (h_config h0) = 4
                 \<and> itr (h_sd h0) = 0
                 \<longrightarrow> itr (h_sd h) = 12 \<and> length (train_calls tr) = 3))
       \<and> (always_returns env l \<and> save_every (h_config h0) \<noteq> 0
            \<and> test_every (h_config h0) \<noteq> 0 \<and> (ema (h_config h0) \<longrightarrow> l_G_ema l)
            \<and> (\<forall>pass. l_loader l pass \<noteq> [])
          \<longrightarrow> (\<exists>fuel tr h. run fuel env c = (tr, Some (Inr h))))"
proof (intro conjI allI impI)
  let ?d = "num_devices (h_config h0)"
  let ?t = "total_steps (h_config h0)"
  fix fuel tr and h :: "('act, 'w) heap"
  assume r: "run fuel env c = (tr, Some (Inr h))"
  note w = run_Inr [OF assms(1) r]
  from assms(5) have nn: "0 \<le> ?d" by simp
  from while_loop_bound [OF assms(2,3) nn assms(7) w(1)] have
    lo: "?t \<le> itr (h_sd h)" and hi: "itr (h_sd h) < ?t + ?d"
    by simp_all
  from while_loop_calls [OF assms(2,3), where fuel = fuel and pass = 0 and h = h0] w(1)
  obtain n where
    tc: "train_calls (fst (while_loop fuel env l 0 h0)) = progression (itr (h_sd h0)) ?d n" and
    fi: "itr (h_sd h) = itr (h_sd h0) + int n * ?d"
    by blast
  have len: "length (train_calls tr) = n"
    by (simp add: w(2) tc length_progression)
  show dv: "?d dvd itr (h_sd h)"
    using assms(6) by (simp add: fi)
  show "?t \<le> itr (h_sd h)" by (rule lo)
  show cnt: "int (length (train_calls tr)) * ?d = itr (h_sd h) - itr (h_sd h0)"
    by (simp add: len fi)
  {
    fix m
    assume "?d dvd m \<and> ?t \<le> m"
    then have "?d dvd m" and "?t \<le> m" by simp_all
    from least_multiple [OF assms(5) dv hi this]
    show "itr (h_sd h) \<le> m" .
  }
  {
    assume a: "?t = 10 \<and> ?d = 4 \<and> itr (h_sd h0) = 0"
    with dv lo hi have "itr (h_sd h) = 12"
      by (intro twelve) simp_all
    moreover from this cnt a have "length (train_calls tr) = 3" by simp
    ultimately show "itr (h_sd h) = 12" and "length (train_calls tr) = 3" by simp_all
  }
next
  assume a: "always_returns env l \<and> save_every (h_config h0) \<noteq> 0
            \<and> test_every (h_config h0) \<noteq> 0 \<and> (ema (h_config h0) \<longrightarrow> l_G_ema l)
            \<and> (\<forall>pass. l_loader l pass \<noteq> [])"
  then have ar: "always_returns env l" and se: "save_every (h_config h0) \<noteq> 0"
    and te: "test_every (h_config h0) \<noteq> 0" and em: "ema (h_config h0) \<longrightarrow> l_G_ema l"
    and ld: "\<forall>pass. l_loader l pass \<noteq> []"
    by simp_all
  let ?fuel = "nat (total_steps (h_config h0) - itr (h_sd h0))"
  from while_loop_returns [OF ar assms(2,3) ld assms(5) se te em, of ?fuel 0]
  obtain h where "snd (while_loop ?fuel env l 0 h0) = Some (Inr h)"
    by blast
  then have "snd (run ?fuel env c) = Some (Inr h)"
    by (simp only: snd_run_Inr [OF assms(1)])
  then have "run ?fuel env c = (fst (run ?fuel env c), Some (Inr h))"
    by (cases "run ?fuel env c") simp
  then show "\<exists>fuel tr h. run fuel env c = (tr, Some (Inr h))"
    by blast
qed

text \<open>
  The demonstration run is fresh, with \<open>total_steps = 10\<close> and 4 devices: its loop terminates
  with the count at 12 after 3 calls of \<open>train\<close>.
\<close>

theorem loop_ends_at_least_multiple_witness:
  "\<not> isl (snd (prepare demo_env demo_config))
   \<and> keeps_itr demo_env (fst (projr (snd (prepare demo_env demo_config))))
   \<and> keeps_config demo_env (fst (projr (snd (prepare demo_env demo_config))))
   \<and> total_steps (h_config (snd (projr (snd (prepare demo_env demo_config))))) = 10
   \<and> num_devices (h_config (snd (projr (snd (prepare demo_env demo_config))))) = 4
   \<and> itr (h_sd (snd (projr (snd (prepare demo_env demo_config))))) = 0
   \<and> map_option (map_sum id (\<lambda>h. itr (h_sd h))) (snd (run 5 demo_env demo_config))
       = Some (Inr 12)
   \<and> length (train_calls (fst (run 5 demo_env demo_config))) = 3"
proof -
  have ok: "\<not> isl (snd (prepare demo_env demo_config))" by code_simp
  then obtain tr0 l h0 where p: "prepare demo_env demo_config = (tr0, Inr (l, h0))"
    by (cases "prepare demo_env demo_config"; cases "snd (prepare demo_env demo_config)") auto
  obtain c' where c: "configure demo_env demo_config = Inr c'" and nr: "\<not> resume c'"
    and nd: "num_devices c' = 4" and ts: "total_steps c' = 10"
    by (simp add: configure_def resolve_def update_config_def demo_env_def demo_config_def)
  from prepare_fresh(1) [OF c nr p] have hc: "h_config h0 = c'" and i0: "itr (h_sd h0) = 0"
    by (simp_all add: new_heap_def new_state_dict_def)
  have "case snd (run 5 demo_env demo_config) of
          Some (Inr h) \<Rightarrow> True | Some (Inl e) \<Rightarrow> False | None \<Rightarrow> False"
    by code_simp
  then obtain h where "snd (run 5 demo_env demo_config) = Some (Inr h)"
    by (auto split: option.splits sum.splits)
  then have r: "run 5 demo_env demo_config = (fst (run 5 demo_env demo_config), Some (Inr h))"
    by (cases "run 5 demo_env demo_config") simp
  from loop_ends_at_least_multiple [OF p keeps_itr_demo keeps_config_demo] r
  have "itr (h_sd h) = 12 \<and> length (train_calls (fst (run 5 demo_env demo_config))) = 3"
    by (simp add: hc i0 nd ts)
  with r ok keeps_itr_demo keeps_config_demo show ?thesis
    by (simp add: p hc i0 nd ts \<open>snd (run 5 demo_env demo_config) = Some (Inr h)\<close>)
qed

text \<open>
  Two resumed runs on which the sentence of the specification fails, both with
  \<open>total_steps = 10\<close> and 4 devices. When \<open>utils.load_weights\<close> restores the count 8, the loop
  ends at 12 after one call of \<open>train\<close>, not three. When it restores the count 20, the loop
  ends at once with the count at 20, which is not the least multiple of 4 from 10 on.
\<close>

theorem loop_ends_at_least_multiple_resumed:
  "total_steps (demo_config\<lparr>resume := True\<rparr>) = 10
   \<and> num_devices (demo_config\<lparr>resume := True\<rparr>) = 4
   \<and> map_option (map_sum id (\<lambda>h. itr (h_sd h)))
       (snd (run 5 (demo_env\<lparr>utils_load_weights :=
                       (\<lambda>h root name suffix e. Inr (h\<lparr>h_sd := (h_sd h)\<lparr>itr := 8\<rparr>\<rparr>))\<rparr>)
                 (demo_config\<lparr>resume := True\<rparr>)))
       = Some (Inr 12)
   \<and> train_calls
       (fst (run 5 (demo_env\<lparr>utils_load_weights :=
                       (\<lambda>h root name suffix e. Inr (h\<lparr>h_sd := (h_sd h)\<lparr>itr := 8\<rparr>\<rparr>))\<rparr>)
                 (demo_config\<lparr>resume := True\<rparr>)))
       = [12]
   \<and> map_option (map_sum id (\<lambda>h. itr (h_sd h)))
       (snd (run 5 (demo_env\<lparr>utils_load_weights :=
                       (\<lambda>h root name suffix e. Inr (h\<lparr>h_sd := (h_sd h)\<lparr>itr := 20\<rparr>\<rparr>))\<rparr>)
                 (demo_config\<lparr>resume := True\<rparr>)))
       = Some (Inr 20)
   \<and> train_calls
       (fst (run 5 (demo_env\<lparr>utils_load_weights :=
                       (\<lambda>h root name suffix e. Inr (h\<lparr>h_sd := (h_sd h)\<lparr>itr := 20\<rparr>\<rparr>))\<rparr>)
                 (demo_config\<lparr>resume := True\<rparr>)))
       = []"
  by code_simp

end
